theory Spec2Isabelle
  imports Main "HOL-Library.Word"
begin

section \<open>JavaScript strings\<close>

text \<open>
  A JavaScript string is a sequence of UTF-16 code units.  String literals of
  \<^verbatim>\<open>script.js\<close> are all ASCII; \<open>js\<close> turns such a literal into its code units.
\<close>

type_synonym jschar = "16 word"
type_synonym jsstring = "jschar list"

definition js :: "string \<Rightarrow> jsstring" where
  "js s = map (\<lambda>c. of_nat (of_char c)) s"

text \<open>
  The code units that \<^verbatim>\<open>String.prototype.trim\<close> strips and that the regular
  expression class \<^verbatim>\<open>\s\<close> matches: ECMAScript's WhiteSpace (TAB, VT, FF, ZWNBSP and the
  Unicode space separators) and LineTerminator (LF, CR, LS, PS).
\<close>

definition isWhiteSpace :: "jschar \<Rightarrow> bool" where
  "isWhiteSpace c =
     (c \<in> set [0x9, 0xA, 0xB, 0xC, 0xD, 0x20, 0xA0, 0x1680, 0x2028, 0x2029, 0x202F,
                0x205F, 0x3000, 0xFEFF]
      \<or> (0x2000 \<le> c \<and> c \<le> 0x200A))"

definition trim :: "jsstring \<Rightarrow> jsstring" where
  "trim s = rev (dropWhile isWhiteSpace (rev (dropWhile isWhiteSpace s)))"

text \<open>JavaScript truthiness of a string: the empty string is falsy, every other one truthy.\<close>

definition truthy :: "jsstring \<Rightarrow> bool" where
  "truthy s = (s \<noteq> [])"

subsection \<open>The regular expression of the email check\<close>

text \<open>
  \<^verbatim>\<open>/^[^\s@]+@[^\s@]+\.[^\s@]+$/\<close> is a sequence of items, each a single character or a
  character repeated one or more times, anchored at both ends.  \<open>rmatch\<close> is the
  backtracking matcher for such sequences against the whole input.
\<close>

datatype cclass = Lit jschar | NotSpaceOrAt

datatype ritem = One cclass | Plus cclass

fun cmatch :: "cclass \<Rightarrow> jschar \<Rightarrow> bool" where
  "cmatch (Lit d) c = (c = d)"
| "cmatch NotSpaceOrAt c = (\<not> isWhiteSpace c \<and> c \<noteq> 0x40)"

fun rmatch :: "ritem list \<Rightarrow> jsstring \<Rightarrow> bool" where
  "rmatch [] s = (s = [])"
| "rmatch (One k # r) [] = False"
| "rmatch (One k # r) (c # s) = (cmatch k c \<and> rmatch r s)"
| "rmatch (Plus k # r) [] = False"
| "rmatch (Plus k # r) (c # s) = (cmatch k c \<and> (rmatch (Plus k # r) s \<or> rmatch r s))"

definition emailRegex :: "ritem list" where
  "emailRegex =
     [Plus NotSpaceOrAt, One (Lit 0x40), Plus NotSpaceOrAt, One (Lit 0x2E), Plus NotSpaceOrAt]"

definition regex_test :: "ritem list \<Rightarrow> jsstring \<Rightarrow> bool" where
  "regex_test r s = rmatch r s"

section \<open>The document\<close>

text \<open>
  The document is the list of its elements in document order; an element is referred to by
  its position.  Each element carries the positions of its ancestors (nearest first), its
  content attributes, its class list and the properties the script reads or writes:
  \<^verbatim>\<open>value\<close>, the value that \<^verbatim>\<open>form.reset()\<close> restores, \<^verbatim>\<open>style.borderColor\<close> (empty
  when the inline style sets none), \<^verbatim>\<open>disabled\<close>, \<^verbatim>\<open>innerHTML\<close> and \<^verbatim>\<open>offsetHeight\<close>
  (a number of pixels, never negative).

  The property \<^verbatim>\<open>value\<close> is a string on a form control and is missing on other elements,
  a \<^verbatim>\<open>div\<close> or a \<^verbatim>\<open>span\<close> say, where reading it gives \<^verbatim>\<open>undefined\<close>: \<open>fvalue\<close> is
  \<open>None\<close> there.

  Whether \<^verbatim>\<open>el.focus()\<close> moves the focus is decided by the platform, from more than the
  script sees (the style sheet among it).  \<open>focusable\<close> is the platform's verdict on the
  element but for its own \<^verbatim>\<open>disabled\<close> property: the element is rendered and not inert, and
  it is a control other than a hidden input, a link with an address, a frame, or carries a
  \<^verbatim>\<open>tabindex\<close>.  The model keeps it fixed: for an element of the modal, which a style sheet
  may hide while the modal is closed, it is the verdict at the calls of \<^verbatim>\<open>focus()\<close> on the
  element, all made while the modal is shown.
\<close>

record element =
  tagName :: string
  ancestors :: "nat list"
  attrs :: "string \<rightharpoonup> jsstring"
  classList :: "string list"
  fvalue :: "jsstring option"
  defaultValue :: jsstring
  borderColor :: jsstring
  disabled :: bool
  focusable :: bool
  innerHTML :: jsstring
  offsetHeight :: nat

text \<open>
  What the script does that is visible outside the document: the \<^verbatim>\<open>fetch\<close> call that posts
  the form (its address and payload are not modelled), \<^verbatim>\<open>console.error\<close>, \<^verbatim>\<open>alert\<close> with
  its message, and the assignment of the source of the embedded frame.
\<close>

datatype effect =
    Fetch
  | ConsoleError
  | Alert jsstring
  | SetFrameSrc jsstring

text \<open>
  A variable holding an element reference that may also be \<^verbatim>\<open>null\<close> (its initial
  value in \<^verbatim>\<open>initCalendlyModal\<close>) or \<^verbatim>\<open>undefined\<close> (indexing an empty node list).
\<close>

datatype jsref = Null | Undefined | El nat

text \<open>
  Event listeners.  A handler names the function of the script that was registered and the
  element references its closure captured; a listener is a target, an event type and a
  handler.  \<open>Observe\<close> stands for \<^verbatim>\<open>observer.observe(section)\<close>.  What the listeners of
  the navigation, the cards, the form and the modal do is defined below
  (\<open>navToggle_click\<close>, \<open>nav_outside_click\<close>, \<open>nav_escape\<close>, \<open>navLink_click\<close>, \<open>card_click\<close>,
  \<open>submit_handler\<close> with \<open>submit_settled\<close>, \<open>input_clear\<close>, \<open>trigger_click\<close>, \<open>closeModal\<close>
  and \<open>modal_keydown\<close>).  The listeners of the preloader, the sticky navbar, smooth
  scrolling and the section observer are registered by \<open>init\<close>; what they do on their
  events is not part of this development.
\<close>

datatype target = Window | Document | Elem nat

datatype handler =
    PreloaderLoad nat
  | NavbarScroll nat
  | NavToggleClick nat nat
  | NavOutsideClick nat nat
  | NavEscape nat nat
  | NavLinkClick nat nat
  | SmoothScrollClick nat nat
  | Observe nat
  | CardClick "nat list" nat nat
  | FormSubmit nat "nat option" "nat option"
  | InputClear nat
  | TriggerClick nat nat "nat option"
  | CloseClick nat nat
  | ModalKeydown nat nat

type_synonym listener = "target \<times> string \<times> handler"

text \<open>
  The page: the elements, the class list of \<^verbatim>\<open>document.body\<close>, the focused element,
  \<^verbatim>\<open>window.innerWidth\<close>, the variables captured by the closures of \<^verbatim>\<open>initMobileNav\<close>
  (\<open>isOpen\<close>) and \<^verbatim>\<open>initCalendlyModal\<close> (\<open>isModalOpen\<close> to \<open>iframeSrcSet\<close>), whether the
  event being handled had \<^verbatim>\<open>preventDefault()\<close> called on it, the number of
  \<^verbatim>\<open>fetch\<close> calls not yet settled (bookkeeping of the model: a submit listener suspended
  at its \<^verbatim>\<open>await\<close>), the registered listeners, and the trace of effects so far.
\<close>

record page =
  elems :: "element list"
  bodyClassList :: "string list"
  activeElement :: "nat option"
  innerWidth :: int
  isOpen :: bool
  isModalOpen :: bool
  focusableElements :: "nat list"
  firstFocusableElement :: jsref
  lastFocusableElement :: jsref
  iframeSrcSet :: bool
  defaultPrevented :: bool
  inFlight :: nat
  listeners :: "listener list"
  trace :: "effect list"

subsection \<open>Queries\<close>

definition getAttribute :: "page \<Rightarrow> nat \<Rightarrow> string \<Rightarrow> jsstring option" where
  "getAttribute s i a = attrs (elems s ! i) a"

text \<open>\<open>querySelectorAll\<close> on the document and on an element (its descendants only).\<close>

definition document_querySelectorAll :: "(element \<Rightarrow> bool) \<Rightarrow> page \<Rightarrow> nat list" where
  "document_querySelectorAll sel s = filter (\<lambda>i. sel (elems s ! i)) [0..<length (elems s)]"

definition querySelectorAll :: "nat \<Rightarrow> (element \<Rightarrow> bool) \<Rightarrow> page \<Rightarrow> nat list" where
  "querySelectorAll root sel s =
     filter (\<lambda>i. root \<in> set (ancestors (elems s ! i)) \<and> sel (elems s ! i))
       [0..<length (elems s)]"

definition first_of :: "nat list \<Rightarrow> nat option" where
  "first_of xs = (case xs of [] \<Rightarrow> None | x # _ \<Rightarrow> Some x)"

definition querySelector :: "nat \<Rightarrow> (element \<Rightarrow> bool) \<Rightarrow> page \<Rightarrow> nat option" where
  "querySelector root sel s = first_of (querySelectorAll root sel s)"

definition document_querySelector :: "(element \<Rightarrow> bool) \<Rightarrow> page \<Rightarrow> nat option" where
  "document_querySelector sel s = first_of (document_querySelectorAll sel s)"

definition getElementById :: "string \<Rightarrow> page \<Rightarrow> nat option" where
  "getElementById ident s = document_querySelector (\<lambda>e. attrs e ''id'' = Some (js ident)) s"

text \<open>\<^verbatim>\<open>a.contains(b)\<close>: \<open>b\<close> is \<open>a\<close> or a descendant of \<open>a\<close>.\<close>

definition contains :: "page \<Rightarrow> nat \<Rightarrow> nat \<Rightarrow> bool" where
  "contains s a b = (a = b \<or> a \<in> set (ancestors (elems s ! b)))"

subsection \<open>The selectors of the script\<close>

definition ascii_lower :: "jschar \<Rightarrow> jschar" where
  "ascii_lower c = (if 0x41 \<le> c \<and> c \<le> 0x5A then c + 0x20 else c)"

text \<open>The \<^verbatim>\<open>type\<close> attribute is compared without regard to ASCII case.\<close>

definition typeAttr :: "element \<Rightarrow> jsstring option" where
  "typeAttr e = map_option (map ascii_lower) (attrs e ''type'')"

definition hasClass :: "string \<Rightarrow> element \<Rightarrow> bool" where
  "hasClass c e = (c \<in> set (classList e))"

definition sel_required :: "element \<Rightarrow> bool" where
  "sel_required e = (attrs e ''required'' \<noteq> None)"

definition sel_input_email :: "element \<Rightarrow> bool" where
  "sel_input_email e = (tagName e = ''input'' \<and> typeAttr e = Some (js ''email''))"

definition sel_honeypot :: "element \<Rightarrow> bool" where
  "sel_honeypot e = (tagName e = ''input'' \<and> attrs e ''name'' = Some (js ''website_url''))"

definition sel_input_textarea :: "element \<Rightarrow> bool" where
  "sel_input_textarea e = (tagName e = ''input'' \<or> tagName e = ''textarea'')"

definition sel_a :: "element \<Rightarrow> bool" where
  "sel_a e = (tagName e = ''a'')"

definition sel_anchor_hash :: "element \<Rightarrow> bool" where
  "sel_anchor_hash e =
     (tagName e = ''a'' \<and> (case attrs e ''href'' of None \<Rightarrow> False | Some h \<Rightarrow> take 1 h = js ''#''))"

definition sel_section_id :: "element \<Rightarrow> bool" where
  "sel_section_id e = (tagName e = ''section'' \<and> attrs e ''id'' \<noteq> None)"

definition sel_close_modal :: "element \<Rightarrow> bool" where
  "sel_close_modal e = (attrs e ''data-close-modal'' \<noteq> None)"

definition sel_focusable :: "element \<Rightarrow> bool" where
  "sel_focusable e =
     (tagName e = ''button'' \<or> attrs e ''href'' \<noteq> None \<or> tagName e = ''input''
      \<or> tagName e = ''select'' \<or> tagName e = ''textarea''
      \<or> (attrs e ''tabindex'' \<noteq> None \<and> attrs e ''tabindex'' \<noteq> Some (js ''-1'')))"

subsection \<open>Updates\<close>

definition updElem :: "nat \<Rightarrow> (element \<Rightarrow> element) \<Rightarrow> page \<Rightarrow> page" where
  "updElem i f s = s\<lparr>elems := (elems s)[i := f (elems s ! i)]\<rparr>"

definition forEach :: "nat list \<Rightarrow> (nat \<Rightarrow> page \<Rightarrow> page) \<Rightarrow> page \<Rightarrow> page" where
  "forEach xs f s = fold f xs s"

definition token_add :: "string \<Rightarrow> string list \<Rightarrow> string list" where
  "token_add c cs = (if c \<in> set cs then cs else cs @ [c])"

definition token_remove :: "string \<Rightarrow> string list \<Rightarrow> string list" where
  "token_remove c cs = filter (\<lambda>x. x \<noteq> c) cs"

definition classList_add :: "nat \<Rightarrow> string \<Rightarrow> page \<Rightarrow> page" where
  "classList_add i c s = updElem i (\<lambda>e. e\<lparr>classList := token_add c (classList e)\<rparr>) s"

definition classList_remove :: "nat \<Rightarrow> string \<Rightarrow> page \<Rightarrow> page" where
  "classList_remove i c s = updElem i (\<lambda>e. e\<lparr>classList := token_remove c (classList e)\<rparr>) s"

definition setAttribute :: "nat \<Rightarrow> string \<Rightarrow> jsstring \<Rightarrow> page \<Rightarrow> page" where
  "setAttribute i a v s = updElem i (\<lambda>e. e\<lparr>attrs := (attrs e)(a \<mapsto> v)\<rparr>) s"

text \<open>\<^verbatim>\<open>el.value = v\<close>; on an element without the property the assignment creates it.\<close>

definition set_value :: "nat \<Rightarrow> jsstring \<Rightarrow> page \<Rightarrow> page" where
  "set_value i v s = updElem i (\<lambda>e. e\<lparr>fvalue := Some v\<rparr>) s"

definition set_borderColor :: "nat \<Rightarrow> jsstring \<Rightarrow> page \<Rightarrow> page" where
  "set_borderColor i v s = updElem i (\<lambda>e. e\<lparr>borderColor := v\<rparr>) s"

definition body_add :: "string \<Rightarrow> page \<Rightarrow> page" where
  "body_add c s = s\<lparr>bodyClassList := token_add c (bodyClassList s)\<rparr>"

definition body_remove :: "string \<Rightarrow> page \<Rightarrow> page" where
  "body_remove c s = s\<lparr>bodyClassList := token_remove c (bodyClassList s)\<rparr>"

text \<open>
  \<^verbatim>\<open>el.focus()\<close> makes the element the document's active element when the element can
  take focus, and does nothing otherwise.  A control (\<^verbatim>\<open>button\<close>, \<^verbatim>\<open>input\<close>, \<^verbatim>\<open>select\<close>,
  \<^verbatim>\<open>textarea\<close>) that is disabled cannot take focus; on another element \<^verbatim>\<open>disabled\<close> is
  a property of no consequence.
\<close>

definition is_control :: "element \<Rightarrow> bool" where
  "is_control e = (tagName e \<in> set [''button'', ''input'', ''select'', ''textarea''])"

definition accepts_focus :: "element \<Rightarrow> bool" where
  "accepts_focus e = (focusable e \<and> \<not> (is_control e \<and> disabled e))"

definition focus :: "nat \<Rightarrow> page \<Rightarrow> page" where
  "focus i s = (if accepts_focus (elems s ! i) then s\<lparr>activeElement := Some i\<rparr> else s)"

section \<open>Exceptions\<close>

text \<open>
  Calling a method on \<^verbatim>\<open>null\<close> or \<^verbatim>\<open>undefined\<close> raises a \<^verbatim>\<open>TypeError\<close>.  A function of
  the script that can raise returns \<open>Inl\<close> of the error or \<open>Inr\<close> of its result.
\<close>

datatype error = TypeError

definition emit :: "effect \<Rightarrow> page \<Rightarrow> page" where
  "emit x s = s\<lparr>trace := trace s @ [x]\<rparr>"

definition preventDefault :: "page \<Rightarrow> page" where
  "preventDefault s = s\<lparr>defaultPrevented := True\<rparr>"

section \<open>Contact form\<close>

definition color_error :: jsstring where
  "color_error = js ''var(--color-error)''"

text \<open>
  \<^verbatim>\<open>validateForm\<close> of \<^verbatim>\<open>initContactForm\<close>: the loop over the required fields, then the
  check of the first email input.  It returns \<open>isValid\<close>, or the exception that ended it,
  and the page with the borders set so far.

  The body of the loop, \<open>validate_required\<close>, calls \<^verbatim>\<open>field.value.trim()\<close>.  The selector
  \<^verbatim>\<open>[required]\<close> matches every element that carries the attribute, so \<^verbatim>\<open>field.value\<close> can
  be \<^verbatim>\<open>undefined\<close>, and the call then raises a \<^verbatim>\<open>TypeError\<close> that ends the loop and
  \<^verbatim>\<open>validateForm\<close>.  In the tests \<^verbatim>\<open>emailField.value\<close> and \<^verbatim>\<open>honeypot.value\<close> a missing
  value is falsy, as an empty one is.
\<close>

definition validate_required :: "nat \<Rightarrow> (error + bool) \<times> page \<Rightarrow> (error + bool) \<times> page" where
  "validate_required field acc =
     (case acc of
        (Inl e, s) \<Rightarrow> (Inl e, s)
      | (Inr isValid, s) \<Rightarrow>
          (case fvalue (elems s ! field) of
             None \<Rightarrow> (Inl TypeError, s)
           | Some v \<Rightarrow>
               if \<not> truthy (trim v)
               then (Inr False, set_borderColor field color_error s)
               else (Inr isValid, set_borderColor field [] s)))"

definition validateForm :: "nat \<Rightarrow> page \<Rightarrow> (error + bool) \<times> page" where
  "validateForm form s =
     (let requiredFields = querySelectorAll form sel_required s
      in case fold validate_required requiredFields (Inr True, s) of
           (Inl e, s1) \<Rightarrow> (Inl e, s1)
         | (Inr isValid, s1) \<Rightarrow>
             (case querySelector form sel_input_email s1 of
                None \<Rightarrow> (Inr isValid, s1)
              | Some ef \<Rightarrow>
                  (case fvalue (elems s1 ! ef) of
                     None \<Rightarrow> (Inr isValid, s1)
                   | Some v \<Rightarrow>
                       if truthy v
                       then (if \<not> regex_test emailRegex v
                             then (Inr False, set_borderColor ef color_error s1)
                             else (Inr isValid, s1))
                       else (Inr isValid, s1))))"

text \<open>
  \<^verbatim>\<open>form.reset()\<close> restores the value of every resettable control inside the form.  An
  \<^verbatim>\<open>input\<close> whose type keeps its value in the \<^verbatim>\<open>value\<close> attribute (hidden, the button
  types, checkbox and radio) keeps the value it has.
\<close>

definition sel_resettable :: "element \<Rightarrow> bool" where
  "sel_resettable e = (tagName e \<in> set [''input'', ''select'', ''textarea'', ''output''])"

definition keeps_value :: "element \<Rightarrow> bool" where
  "keeps_value e =
     (tagName e = ''input'' \<and>
      typeAttr e \<in> set (map (\<lambda>t. Some (js t))
        [''hidden'', ''submit'', ''image'', ''reset'', ''button'', ''checkbox'', ''radio'']))"

definition reset_control :: "element \<Rightarrow> element" where
  "reset_control e = (if keeps_value e then e else e\<lparr>fvalue := Some (defaultValue e)\<rparr>)"

definition form_reset :: "nat \<Rightarrow> page \<Rightarrow> page" where
  "form_reset form s = forEach (querySelectorAll form sel_resettable s) (\<lambda>i. updElem i reset_control) s"

definition label_sending :: jsstring where
  \<open>label_sending = js ''<i class="fas fa-spinner fa-spin"></i> Sending...''\<close>

definition label_send :: jsstring where
  \<open>label_send = js ''<i class="fas fa-paper-plane"></i> Send My Free Audit''\<close>

definition alert_message :: jsstring where
  "alert_message =
     js ''There was an error sending your message. Please try again or contact us directly.''"

text \<open>
  The submit listener up to its \<^verbatim>\<open>await\<close>: validation, the honeypot check, the pending
  state of the button and the \<^verbatim>\<open>fetch\<close> call.  It returns the exception that ended it, if
  one did (nothing in the script catches it: the host reports it on the console), and the
  page.
\<close>

definition submit_handler :: "nat \<Rightarrow> nat option \<Rightarrow> page \<Rightarrow> error option \<times> page" where
  "submit_handler form submitButton s =
     (let s0 = preventDefault s
      in case validateForm form s0 of
           (Inl e, s1) \<Rightarrow> (Some e, s1)
         | (Inr ok, s1) \<Rightarrow>
             if \<not> ok then (None, s1)
             else
               let honeypot = querySelector form sel_honeypot s1
               in if (case honeypot of
                        None \<Rightarrow> False
                      | Some h \<Rightarrow>
                          (case fvalue (elems s1 ! h) of None \<Rightarrow> False | Some v \<Rightarrow> truthy v))
                  then (None, s1)
                  else
                    let s2 = (case submitButton of
                                None \<Rightarrow> s1
                              | Some b \<Rightarrow>
                                  updElem b (\<lambda>e. e\<lparr>disabled := True, innerHTML := label_sending\<rparr>) s1);
                        s3 = emit Fetch s2
                    in (None, s3\<lparr>inFlight := Suc (inFlight s3)\<rparr>))"



definition reset_card :: "nat \<Rightarrow> page \<Rightarrow> page" where
  "reset_card cardEl s =
     (let s1 = classList_remove cardEl ''active'' s
      in if getAttribute s1 cardEl ''data-type'' = Some (js ''dental'')
         then classList_add cardEl ''active'' s1 else s1)"

definition submit_success :: "nat \<Rightarrow> nat option \<Rightarrow> page \<Rightarrow> page" where
  "submit_success form successMessage s =
     (let s1 = (case successMessage of None \<Rightarrow> s | Some m \<Rightarrow> classList_add m ''show'' s);
          s2 = form_reset form s1;
          businessTypeInput = getElementById ''business-type'' s2;
          s3 = (case businessTypeInput of
                  None \<Rightarrow> s2
                | Some b \<Rightarrow> set_value b (js ''dental'') s2);
          businessTypeCards = document_querySelectorAll (hasClass ''business-type-card'') s3
      in forEach businessTypeCards reset_card s3)"

definition submit_failure :: "page \<Rightarrow> page" where
  "submit_failure s = emit (Alert alert_message) (emit ConsoleError s)"

definition submit_finally :: "nat option \<Rightarrow> page \<Rightarrow> page" where
  "submit_finally submitButton s =
     (case submitButton of
        None \<Rightarrow> s
      | Some b \<Rightarrow> updElem b (\<lambda>e. e\<lparr>disabled := False, innerHTML := label_send\<rparr>) s)"


definition input_clear :: "nat \<Rightarrow> page \<Rightarrow> page" where
  "input_clear input s = set_borderColor input [] s"

section \<open>Business type selector\<close>

definition card_click :: "nat list \<Rightarrow> nat \<Rightarrow> nat \<Rightarrow> page \<Rightarrow> page" where
  "card_click businessTypeCards businessTypeInput cardEl s =
     (let s1 = forEach businessTypeCards (\<lambda>c. classList_remove c ''active'') s;
          s2 = classList_add cardEl ''active'' s1;
          businessType = getAttribute s2 cardEl ''data-type''
      in set_value businessTypeInput
           (case businessType of
              None \<Rightarrow> js ''dental''
            | Some t \<Rightarrow> if truthy t then t else js ''dental'') s2)"


section \<open>Mobile navigation\<close>

definition openMenu :: "nat \<Rightarrow> nat \<Rightarrow> page \<Rightarrow> page" where
  "openMenu navToggle navMenu s =
     body_add ''modal-open''
       (classList_add navMenu ''active''
         (setAttribute navToggle ''aria-expanded'' (js ''true'') (s\<lparr>isOpen := True\<rparr>)))"

definition closeMenu :: "nat \<Rightarrow> nat \<Rightarrow> page \<Rightarrow> page" where
  "closeMenu navToggle navMenu s =
     focus navToggle
       (body_remove ''modal-open''
         (classList_remove navMenu ''active''
           (setAttribute navToggle ''aria-expanded'' (js ''false'') (s\<lparr>isOpen := False\<rparr>))))"

definition navToggle_click :: "nat \<Rightarrow> nat \<Rightarrow> page \<Rightarrow> page" where
  "navToggle_click navToggle navMenu s =
     (if isOpen s then closeMenu navToggle navMenu s else openMenu navToggle navMenu s)"

definition nav_outside_click :: "nat \<Rightarrow> nat \<Rightarrow> nat \<Rightarrow> page \<Rightarrow> page" where
  "nav_outside_click navToggle navMenu tgt s =
     (if isOpen s \<and> \<not> contains s navMenu tgt \<and> \<not> contains s navToggle tgt
      then closeMenu navToggle navMenu s else s)"

definition nav_escape :: "nat \<Rightarrow> nat \<Rightarrow> jsstring \<Rightarrow> page \<Rightarrow> page" where
  "nav_escape navToggle navMenu key s =
     (if key = js ''Escape'' \<and> isOpen s then closeMenu navToggle navMenu s else s)"

definition navLink_click :: "nat \<Rightarrow> nat \<Rightarrow> page \<Rightarrow> page" where
  "navLink_click navToggle navMenu s =
     (if innerWidth s \<le> 767 then closeMenu navToggle navMenu s else s)"

text \<open>
  The listeners of \<^verbatim>\<open>initMobileNav\<close> that a click on the element \<open>tgt\<close> runs: on the way
  from \<open>tgt\<close> up, the toggle's and each link's own listener (in the order they were
  registered), then the document's.
\<close>

definition nav_click_at :: "nat \<Rightarrow> nat \<Rightarrow> nat list \<Rightarrow> nat \<Rightarrow> page \<Rightarrow> page" where
  "nav_click_at navToggle navMenu navLinks x s =
     (let s1 = (if x = navToggle then navToggle_click navToggle navMenu s else s)
      in if x \<in> set navLinks then navLink_click navToggle navMenu s1 else s1)"

definition nav_click :: "nat \<Rightarrow> nat \<Rightarrow> nat list \<Rightarrow> nat \<Rightarrow> page \<Rightarrow> page" where
  "nav_click navToggle navMenu navLinks tgt s =
     nav_outside_click navToggle navMenu tgt
       (fold (nav_click_at navToggle navMenu navLinks) (tgt # ancestors (elems s ! tgt)) s)"

section \<open>Calendly modal\<close>

definition calendly_url :: jsstring where
  "calendly_url = js ''https://calendly.com/vrmvn0/meeting''"

text \<open>\<^verbatim>\<open>list[0]\<close> and \<^verbatim>\<open>list[list.length - 1]\<close>: \<^verbatim>\<open>undefined\<close> on an empty node list.\<close>

definition item_first :: "nat list \<Rightarrow> jsref" where
  "item_first xs = (case xs of [] \<Rightarrow> Undefined | x # _ \<Rightarrow> El x)"

definition item_last :: "nat list \<Rightarrow> jsref" where
  "item_last xs = (case rev xs of [] \<Rightarrow> Undefined | x # _ \<Rightarrow> El x)"

text \<open>\<^verbatim>\<open>document.activeElement === r\<close>: \<^verbatim>\<open>document.activeElement\<close> is an element or null.\<close>

definition active_is :: "page \<Rightarrow> jsref \<Rightarrow> bool" where
  "active_is s r =
     (case r of Null \<Rightarrow> activeElement s = None
              | Undefined \<Rightarrow> False
              | El i \<Rightarrow> activeElement s = Some i)"

text \<open>\<^verbatim>\<open>if (r) r.focus()\<close>\<close>

definition focus_if :: "jsref \<Rightarrow> page \<Rightarrow> page" where
  "focus_if r s = (case r of El i \<Rightarrow> focus i s | _ \<Rightarrow> s)"

definition updateFocusableElements :: "nat \<Rightarrow> page \<Rightarrow> page" where
  "updateFocusableElements modal s =
     (let fe = querySelectorAll modal sel_focusable s
      in s\<lparr>focusableElements := fe,
            firstFocusableElement := item_first fe,
            lastFocusableElement := item_last fe\<rparr>)"

definition openModal :: "nat \<Rightarrow> nat option \<Rightarrow> page \<Rightarrow> page" where
  "openModal modal iframe s =
     (let s1 = setAttribute modal ''aria-hidden'' (js ''false'')
                 (body_add ''modal-open''
                   (classList_add modal ''active'' (s\<lparr>isModalOpen := True\<rparr>)));
          s2 = (case iframe of
                  None \<Rightarrow> s1
                | Some f \<Rightarrow>
                    if \<not> iframeSrcSet s1
                    then (emit (SetFrameSrc calendly_url)
                            (setAttribute f ''src'' calendly_url s1))\<lparr>iframeSrcSet := True\<rparr>
                    else s1);
          s3 = updateFocusableElements modal s2
      in focus_if (firstFocusableElement s3) s3)"

definition closeModal :: "nat \<Rightarrow> nat \<Rightarrow> page \<Rightarrow> page" where
  "closeModal trigger modal s =
     focus trigger
       (setAttribute modal ''aria-hidden'' (js ''true'')
         (body_remove ''modal-open''
           (classList_remove modal ''active'' (s\<lparr>isModalOpen := False\<rparr>))))"

definition trigger_click :: "nat \<Rightarrow> nat option \<Rightarrow> page \<Rightarrow> page" where
  "trigger_click modal iframe s = openModal modal iframe (preventDefault s)"

definition modal_keydown :: "nat \<Rightarrow> nat \<Rightarrow> jsstring \<Rightarrow> bool \<Rightarrow> page \<Rightarrow> page" where
  "modal_keydown trigger modal key shiftKey s =
     (if \<not> isModalOpen s then s
      else
        let s1 = (if key = js ''Escape'' then closeModal trigger modal s else s)
        in if key = js ''Tab''
           then (if shiftKey
                 then (if active_is s1 (firstFocusableElement s1)
                       then focus_if (lastFocusableElement s1) (preventDefault s1)
                       else s1)
                 else (if active_is s1 (lastFocusableElement s1)
                       then focus_if (firstFocusableElement s1) (preventDefault s1)
                       else s1))
           else s1)"

section \<open>Initialisation\<close>

text \<open>
  In the \<open>init\<close> functions a variable that \<^verbatim>\<open>getElementById\<close> or \<^verbatim>\<open>querySelector\<close>
  filled is an option, and each use of it as an object goes through \<open>deref\<close>: also the
  capture of the variable by a listener, which will use it as an object when it runs.  An
  optional chain \<^verbatim>\<open>x?.m()\<close> and a test \<^verbatim>\<open>x ? a : b\<close> are case distinctions.  An exception
  in one \<open>init\<close> function ends \<open>init\<close>, so the functions are chained with \<open>bind_err\<close>.
\<close>

definition deref :: "nat option \<Rightarrow> error + nat" where
  "deref r = (case r of None \<Rightarrow> Inl TypeError | Some i \<Rightarrow> Inr i)"

definition bind_err :: "error + 'a \<Rightarrow> ('a \<Rightarrow> error + 'b) \<Rightarrow> error + 'b" where
  "bind_err m f = (case m of Inl e \<Rightarrow> Inl e | Inr x \<Rightarrow> f x)"

definition addEventListener :: "target \<Rightarrow> string \<Rightarrow> handler \<Rightarrow> page \<Rightarrow> page" where
  "addEventListener t ty h s = s\<lparr>listeners := listeners s @ [(t, ty, h)]\<rparr>"

definition initPreloader :: "page \<Rightarrow> error + page" where
  "initPreloader s =
     (let preloader = getElementById ''preloader'' s
      in if preloader = None then Inr s
         else bind_err (deref preloader) (\<lambda>p.
                Inr (addEventListener Window ''load'' (PreloaderLoad p) s)))"

definition initStickyNavbar :: "page \<Rightarrow> error + page" where
  "initStickyNavbar s =
     (let navbar = getElementById ''navbar'' s
      in if navbar = None then Inr s
         else bind_err (deref navbar) (\<lambda>n.
                Inr (addEventListener Window ''scroll'' (NavbarScroll n) s)))"

definition initMobileNav :: "page \<Rightarrow> error + page" where
  "initMobileNav s =
     (let navToggle = getElementById ''nav-toggle'' s;
          navMenu = getElementById ''nav-menu'' s
      in if navToggle = None \<or> navMenu = None then Inr s
         else
           bind_err (deref navToggle) (\<lambda>t.
           bind_err (deref navMenu) (\<lambda>m.
             let s1 = s\<lparr>isOpen := False\<rparr>;
                 s2 = addEventListener (Elem t) ''click'' (NavToggleClick t m) s1;
                 s3 = addEventListener Document ''click'' (NavOutsideClick t m) s2;
                 s4 = addEventListener Document ''keydown'' (NavEscape t m) s3;
                 navLinks = querySelectorAll m sel_a s4
             in Inr (forEach navLinks
                       (\<lambda>link. addEventListener (Elem link) ''click'' (NavLinkClick t m)) s4))))"

text \<open>
  In \<^verbatim>\<open>initSmoothNavigation\<close> the observer is constructed with the margin
  \<^verbatim>\<open>-${navbarHeight + 50}px 0px -50% 0px\<close>, which is well formed for every height, and
  then observes each section.
\<close>

definition initSmoothNavigation :: "page \<Rightarrow> error + page" where
  "initSmoothNavigation s =
     (let navLinks = document_querySelectorAll sel_anchor_hash s;
          navbar = getElementById ''navbar'' s;
          navbarHeight = (case navbar of None \<Rightarrow> 80 | Some n \<Rightarrow> offsetHeight (elems s ! n));
          s1 = forEach navLinks
                 (\<lambda>link. addEventListener (Elem link) ''click'' (SmoothScrollClick link navbarHeight)) s;
          sections = document_querySelectorAll sel_section_id s1
      in if length sections = 0 then Inr s1
         else Inr (forEach sections
                     (\<lambda>sec. addEventListener (Elem sec) ''intersect'' (Observe navbarHeight)) s1))"

definition initBusinessTypeSelector :: "page \<Rightarrow> error + page" where
  "initBusinessTypeSelector s =
     (let businessTypeCards = document_querySelectorAll (hasClass ''business-type-card'') s;
          businessTypeInput = getElementById ''business-type'' s
      in if businessTypeInput = None \<or> length businessTypeCards = 0 then Inr s
         else
           bind_err (deref businessTypeInput) (\<lambda>inp.
             Inr (forEach businessTypeCards
                    (\<lambda>c. addEventListener (Elem c) ''click'' (CardClick businessTypeCards inp c)) s)))"

definition initContactForm :: "page \<Rightarrow> error + page" where
  "initContactForm s =
     (let form = getElementById ''contact-form'' s;
          submitButton = (case form of
                            None \<Rightarrow> None
                          | Some f \<Rightarrow> querySelector f (hasClass ''btn-submit'') s);
          successMessage = getElementById ''form-success'' s
      in if form = None then Inr s
         else
           bind_err (deref form) (\<lambda>f.
             let s1 = addEventListener (Elem f) ''submit'' (FormSubmit f submitButton successMessage) s;
                 inputs = querySelectorAll f sel_input_textarea s1
             in Inr (forEach inputs
                       (\<lambda>i. addEventListener (Elem i) ''input'' (InputClear i)) s1)))"

definition initCalendlyModal :: "page \<Rightarrow> error + page" where
  "initCalendlyModal s =
     (let trigger = getElementById ''calendly-trigger'' s;
          modal = getElementById ''calendly-modal'' s;
          iframe = getElementById ''calendly-iframe'' s;
          closeButtons = (case modal of
                            None \<Rightarrow> None
                          | Some m \<Rightarrow> Some (querySelectorAll m sel_close_modal s))
      in if trigger = None \<or> modal = None then Inr s
         else
           let s1 = s\<lparr>isModalOpen := False, focusableElements := [],
                       firstFocusableElement := Null, lastFocusableElement := Null,
                       iframeSrcSet := False\<rparr>
           in bind_err (deref trigger) (\<lambda>t.
              bind_err (deref modal) (\<lambda>m.
                let s2 = addEventListener (Elem t) ''click'' (TriggerClick t m iframe) s1;
                    s3 = (case closeButtons of
                            None \<Rightarrow> s2
                          | Some bs \<Rightarrow>
                              forEach bs
                                (\<lambda>b. addEventListener (Elem b) ''click'' (CloseClick t m)) s2);
                    s4 = addEventListener Document ''keydown'' (ModalKeydown t m) s3
                in Inr (setAttribute m ''aria-hidden'' (js ''true'') s4))))"

definition init :: "page \<Rightarrow> error + page" where
  "init s =
     bind_err (initPreloader s) (\<lambda>s1.
     bind_err (initStickyNavbar s1) (\<lambda>s2.
     bind_err (initMobileNav s2) (\<lambda>s3.
     bind_err (initSmoothNavigation s3) (\<lambda>s4.
     bind_err (initBusinessTypeSelector s4) (\<lambda>s5.
     bind_err (initContactForm s5) (\<lambda>s6.
     initCalendlyModal s6))))))"

section \<open>The modal as a state machine\<close>

text \<open>
  The operations on the modal that its listeners perform: a click on the trigger opens it,
  a click on a close control closes it, and a key press goes to the key listener.
\<close>

datatype modal_op = Open | Close | Key jsstring bool

fun modal_step :: "nat \<Rightarrow> nat \<Rightarrow> nat option \<Rightarrow> page \<Rightarrow> modal_op \<Rightarrow> page" where
  "modal_step trigger modal iframe s Open = trigger_click modal iframe s"
| "modal_step trigger modal iframe s Close = closeModal trigger modal s"
| "modal_step trigger modal iframe s (Key k shiftKey) = modal_keydown trigger modal k shiftKey s"

definition modal_run :: "nat \<Rightarrow> nat \<Rightarrow> nat option \<Rightarrow> modal_op list \<Rightarrow> page \<Rightarrow> page" where
  "modal_run trigger modal iframe ops s = foldl (modal_step trigger modal iframe) s ops"

text \<open>How often the source of the embedded frame has been assigned.\<close>

definition frame_assignments :: "page \<Rightarrow> nat" where
  "frame_assignments s =
     length (filter (\<lambda>x. case x of SetFrameSrc _ \<Rightarrow> True | _ \<Rightarrow> False) (trace s))"

definition fetch_count :: "page \<Rightarrow> nat" where
  "fetch_count s = length (filter (\<lambda>x. x = Fetch) (trace s))"

section \<open>Notions used in the statements and proofs\<close>

text \<open>
  The definitions of this section are not functions of the script: they name what the
  theorems say about it, and the closed forms of its loops that the proofs go through.
\<close>

text \<open>A loop that updates each element of a node list in the same way.\<close>

definition mapAt :: "nat list \<Rightarrow> (element \<Rightarrow> element) \<Rightarrow> element list \<Rightarrow> element list" where
  "mapAt fs g es = map (\<lambda>(i, e). if i \<in> set fs then g e else e) (enumerate 0 es)"

text \<open>
  The value of an element as a string, a missing value counting as the empty string: the
  two are equally falsy in the tests \<^verbatim>\<open>emailField.value\<close> and \<^verbatim>\<open>honeypot.value\<close>.
\<close>

definition value_of :: "element \<Rightarrow> jsstring" where
  "value_of e = (case fvalue e of None \<Rightarrow> [] | Some v \<Rightarrow> v)"

text \<open>Every required element of the form has the property \<^verbatim>\<open>value\<close>.\<close>

definition required_have_value :: "nat \<Rightarrow> page \<Rightarrow> bool" where
  "required_have_value form s =
     (\<forall>f\<in>set (querySelectorAll form sel_required s). fvalue (elems s ! f) \<noteq> None)"

text \<open>
  The required elements that the loop of \<open>validateForm\<close> gets to: those before the first
  one without a value, all of them when each has one.
\<close>

definition checked :: "nat \<Rightarrow> page \<Rightarrow> nat list" where
  "checked form s =
     takeWhile (\<lambda>f. fvalue (elems s ! f) \<noteq> None) (querySelectorAll form sel_required s)"

text \<open>What the loop of \<open>validateForm\<close> does to a required field that has a value.\<close>

definition mark_required :: "element \<Rightarrow> element" where
  "mark_required e = e\<lparr>borderColor := (if truthy (trim (value_of e)) then [] else color_error)\<rparr>"

text \<open>
  Every required element of the form has a value that is not empty once trimmed (so it has
  a value).
\<close>

definition required_ok :: "nat \<Rightarrow> page \<Rightarrow> bool" where
  "required_ok form s =
     (\<forall>f\<in>set (querySelectorAll form sel_required s). truthy (trim (value_of (elems s ! f))))"

text \<open>The element is the email input of the form, and its value is not empty and malformed.\<close>

definition email_bad :: "nat \<Rightarrow> page \<Rightarrow> nat \<Rightarrow> bool" where
  "email_bad form s i =
     (querySelector form sel_input_email s = Some i \<and> truthy (value_of (elems s ! i))
      \<and> \<not> regex_test emailRegex (value_of (elems s ! i)))"

text \<open>
  The pattern \<open>local@domain.tld\<close>: a local part, an \<open>@\<close>, a domain, a dot and a last part,
  the three parts not empty and free of whitespace and of \<open>@\<close>.
\<close>

definition local_domain_tld :: "jsstring \<Rightarrow> bool" where
  "local_domain_tld v =
     (\<exists>l d t. v = l @ [0x40] @ d @ [0x2E] @ t \<and> l \<noteq> [] \<and> d \<noteq> [] \<and> t \<noteq> []
        \<and> (\<forall>c\<in>set (l @ d @ t). \<not> isWhiteSpace c \<and> c \<noteq> 0x40))"

text \<open>The form has a honeypot input and its value is not empty.\<close>

definition honeypot_filled :: "nat \<Rightarrow> page \<Rightarrow> bool" where
  "honeypot_filled form s =
     (case querySelector form sel_honeypot s of
        None \<Rightarrow> False
      | Some h \<Rightarrow> truthy (value_of (elems s ! h)))"

text \<open>
  The border of an element after validation: the email check is reached when every required
  element has a value, and the loop sets the border of the required elements it gets to.
\<close>

definition flag_after :: "nat \<Rightarrow> page \<Rightarrow> nat \<Rightarrow> jsstring" where
  "flag_after form s i =
     (if required_have_value form s \<and> email_bad form s i then color_error
      else if i \<in> set (checked form s)
      then (if truthy (trim (value_of (elems s ! i))) then [] else color_error)
      else borderColor (elems s ! i))"

text \<open>The submit control put into its pending state.\<close>

definition pending_button :: "nat option \<Rightarrow> page \<Rightarrow> page" where
  "pending_button submitButton s =
     (case submitButton of
        None \<Rightarrow> s
      | Some b \<Rightarrow> updElem b (\<lambda>e. e\<lparr>disabled := True, innerHTML := label_sending\<rparr>) s)"

text \<open>
  Validity in the words of the specification: every required field is non-empty after
  trimming and the value of the email field matches the pattern.
\<close>

definition spec_valid :: "nat \<Rightarrow> page \<Rightarrow> bool" where
  "spec_valid form s =
     (required_ok form s \<and>
      (case querySelector form sel_input_email s of
         None \<Rightarrow> True
       | Some ef \<Rightarrow> local_domain_tld (value_of (elems s ! ef))))"

text \<open>What the success branch of the submit listener does to a card, and to any element.\<close>

definition card_reset_el :: "element \<Rightarrow> element" where
  "card_reset_el e =
     e\<lparr>classList :=
         (if attrs e ''data-type'' = Some (js ''dental'')
          then token_add ''active'' (token_remove ''active'' (classList e))
          else token_remove ''active'' (classList e))\<rparr>"

definition success_el :: "nat \<Rightarrow> nat option \<Rightarrow> page \<Rightarrow> nat \<Rightarrow> element" where
  "success_el form successMessage s i =
     (let e0 = elems s ! i;
          e1 = (if successMessage = Some i then e0\<lparr>classList := token_add ''show'' (classList e0)\<rparr>
                else e0);
          e2 = (if i \<in> set (querySelectorAll form sel_resettable s) then reset_control e1 else e1);
          e3 = (if getElementById ''business-type'' s = Some i then e2\<lparr>fvalue := Some (js ''dental'')\<rparr>
                else e2)
      in if i \<in> set (document_querySelectorAll (hasClass ''business-type-card'') s)
         then card_reset_el e3 else e3)"

text \<open>The state in which \<open>openModal\<close> recomputes the focusable elements.\<close>

definition opened :: "nat \<Rightarrow> nat option \<Rightarrow> page \<Rightarrow> page" where
  "opened modal iframe s =
     (let s1 = setAttribute modal ''aria-hidden'' (js ''false'')
                 (body_add ''modal-open''
                   (classList_add modal ''active'' (s\<lparr>isModalOpen := True\<rparr>)))
      in case iframe of
           None \<Rightarrow> s1
         | Some f \<Rightarrow>
             if \<not> iframeSrcSet s1
             then (emit (SetFrameSrc calendly_url)
                     (setAttribute f ''src'' calendly_url s1))\<lparr>iframeSrcSet := True\<rparr>
             else s1)"

text \<open>The bounds of the focus trap are the first and the last of the recorded elements.\<close>

definition trap_ok :: "page \<Rightarrow> bool" where
  "trap_ok s =
     (firstFocusableElement s = item_first (focusableElements s)
      \<and> lastFocusableElement s = item_last (focusableElements s))"

text \<open>The page that \<open>init\<close> leaves, and the listeners registered on it.\<close>

definition after_init :: "page \<Rightarrow> page" where
  "after_init s = (case init s of Inl _ \<Rightarrow> s | Inr s' \<Rightarrow> s')"

definition enabled :: "page \<Rightarrow> listener \<Rightarrow> bool" where
  "enabled s l = (l \<in> set (listeners (after_init s)))"

text \<open>The value a click on a card writes into the hidden field, from the card's \<open>data-type\<close>.\<close>

definition selected_type :: "jsstring option \<Rightarrow> jsstring" where
  "selected_type t =
     (case t of None \<Rightarrow> js ''dental'' | Some v \<Rightarrow> if truthy v then v else js ''dental'')"


text \<open>What a click on a card first does to every card.\<close>

definition deactivate :: "element \<Rightarrow> element" where
  "deactivate e = e\<lparr>classList := token_remove ''active'' (classList e)\<rparr>"

section \<open>Example documents\<close>

text \<open>
  An element as the platform builds it from markup, given its tag, the positions of its
  ancestors, its attributes, its classes and, for a control, its value: a control has the
  property \<^verbatim>\<open>value\<close> and another element has not; an element is disabled when it carries
  the attribute; and a rendered element is focusable when it is a control other than a
  hidden input, a frame, a link with an address, or has a \<^verbatim>\<open>tabindex\<close>.  A page, freshly
  loaded, from its elements.
\<close>

definition markup_focusable :: "string \<Rightarrow> (string \<rightharpoonup> jsstring) \<Rightarrow> bool" where
  "markup_focusable tg ats =
     (tg \<in> set [''button'', ''select'', ''textarea'', ''iframe'']
      \<or> (tg = ''input'' \<and> ats ''type'' \<noteq> Some (js ''hidden''))
      \<or> (tg \<in> set [''a'', ''area''] \<and> ats ''href'' \<noteq> None)
      \<or> ats ''tabindex'' \<noteq> None)"

definition mk_el :: "string \<Rightarrow> nat list \<Rightarrow> (string \<times> jsstring) list \<Rightarrow> string list \<Rightarrow> jsstring \<Rightarrow> element" where
  "mk_el tg anc ats cls v =
     \<lparr>tagName = tg, ancestors = anc, attrs = map_of ats, classList = cls,
      fvalue = (if tg \<in> set [''input'', ''textarea'', ''select'', ''button'', ''output'']
                then Some v else None),
      defaultValue = [], borderColor = [], disabled = (map_of ats ''disabled'' \<noteq> None),
      focusable = markup_focusable tg (map_of ats), innerHTML = [], offsetHeight = 0\<rparr>"

definition mk_page :: "element list \<Rightarrow> page" where
  "mk_page es =
     \<lparr>elems = es, bodyClassList = [], activeElement = None, innerWidth = 1024, isOpen = False,
      isModalOpen = False, focusableElements = [], firstFocusableElement = Null,
      lastFocusableElement = Null, iframeSrcSet = False, defaultPrevented = False,
      inFlight = 0, listeners = [], trace = []\<rparr>"

text \<open>A contact form with an optional, empty email field and a required, filled name field.\<close>

definition page_optional_email :: page where
  "page_optional_email =
     mk_page
       [mk_el ''form'' [] [(''id'', js ''contact-form'')] [] [],
        mk_el ''input'' [0] [(''type'', js ''email''), (''name'', js ''email'')] [] [],
        mk_el ''input'' [0] [(''type'', js ''text''), (''name'', js ''name''), (''required'', [])] []
          (js ''Al'')]"

text \<open>
  The same form with the email field still flagged, as an earlier submit with a malformed
  address followed by a reset of the form leaves it.
\<close>

definition page_flagged_email :: page where
  "page_flagged_email = updElem 1 (\<lambda>e. e\<lparr>borderColor := color_error\<rparr>) page_optional_email"

text \<open>
  A contact form with a filled required name and a filled honeypot, and the same form with
  the honeypot left empty.
\<close>

definition page_bot_valid :: page where
  "page_bot_valid =
     mk_page
       [mk_el ''form'' [] [(''id'', js ''contact-form'')] [] [],
        mk_el ''input'' [0] [(''type'', js ''text''), (''name'', js ''name''), (''required'', [])] []
          (js ''Al''),
        mk_el ''input'' [0] [(''type'', js ''text''), (''name'', js ''website_url'')] [] (js ''x'')]"

definition page_human :: page where
  "page_human = set_value 2 [] page_bot_valid"

text \<open>
  A contact form whose first required element is a \<^verbatim>\<open>div\<close>, which has no value, followed
  by a required name left blank.
\<close>

definition page_required_div :: page where
  "page_required_div =
     mk_page
       [mk_el ''form'' [] [(''id'', js ''contact-form'')] [] [],
        mk_el ''div'' [0] [(''required'', [])] [] [],
        mk_el ''input'' [0] [(''type'', js ''text''), (''name'', js ''name''), (''required'', [])] [] []]"

text \<open>A contact form with a blank required name and a filled honeypot.\<close>

definition page_bot :: page where
  "page_bot =
     mk_page
       [mk_el ''form'' [] [(''id'', js ''contact-form'')] [] [],
        mk_el ''input'' [0] [(''type'', js ''text''), (''name'', js ''name''), (''required'', [])] [] [],
        mk_el ''input'' [0] [(''type'', js ''text''), (''name'', js ''website_url'')] [] (js ''x'')]"

text \<open>A contact form whose required email holds \<open>a@b\<close> and whose required name is blank.\<close>

definition page_bad_email :: page where
  "page_bad_email =
     mk_page
       [mk_el ''form'' [] [(''id'', js ''contact-form'')] [] [],
        mk_el ''input'' [0] [(''type'', js ''email''), (''name'', js ''email''), (''required'', [])] []
          (js ''a@b''),
        mk_el ''input'' [0] [(''type'', js ''text''), (''name'', js ''name''), (''required'', [])] []
          (js ''  '')]"

text \<open>
  A page with the contact form (a name, the hidden business-type field holding \<open>legal\<close>, the
  submit button), the success message and two cards, the \<open>legal\<close> one active.
\<close>

definition page_contact :: page where
  "page_contact =
     mk_page
       [mk_el ''form'' [] [(''id'', js ''contact-form'')] [] [],
        mk_el ''input'' [0] [(''type'', js ''text''), (''name'', js ''name''), (''required'', [])] []
          (js ''Al''),
        mk_el ''input'' [0] [(''type'', js ''hidden''), (''id'', js ''business-type'')] []
          (js ''legal''),
        mk_el ''button'' [0] [(''type'', js ''submit'')] [''btn-submit''] [],
        mk_el ''div'' [] [(''id'', js ''form-success'')] [] [],
        mk_el ''div'' [] [(''data-type'', js ''dental'')] [''business-type-card''] [],
        mk_el ''div'' [] [(''data-type'', js ''legal'')] [''business-type-card'', ''active''] []]"

text \<open>
  A page with the trigger, the modal holding a close button, the frame and a link, and a
  link outside the modal.  The same page with the close button disabled, and with an
  anchor that has no address as the trigger.
\<close>

definition page_modal :: page where
  "page_modal =
     mk_page
       [mk_el ''button'' [] [(''id'', js ''calendly-trigger'')] [] [],
        mk_el ''div'' [] [(''id'', js ''calendly-modal'')] [] [],
        mk_el ''button'' [1] [(''data-close-modal'', [])] [] [],
        mk_el ''iframe'' [1] [(''id'', js ''calendly-iframe'')] [] [],
        mk_el ''a'' [1] [(''href'', js ''/privacy'')] [] [],
        mk_el ''a'' [] [(''href'', js ''#contact'')] [] []]"

definition page_modal_disabled :: page where
  "page_modal_disabled =
     mk_page
       [mk_el ''button'' [] [(''id'', js ''calendly-trigger'')] [] [],
        mk_el ''div'' [] [(''id'', js ''calendly-modal'')] [] [],
        mk_el ''button'' [1] [(''data-close-modal'', []), (''disabled'', [])] [] [],
        mk_el ''iframe'' [1] [(''id'', js ''calendly-iframe'')] [] [],
        mk_el ''a'' [1] [(''href'', js ''/privacy'')] [] [],
        mk_el ''a'' [] [(''href'', js ''#contact'')] [] []]"

definition page_modal_anchor :: page where
  "page_modal_anchor =
     mk_page
       [mk_el ''a'' [] [(''id'', js ''calendly-trigger'')] [] [],
        mk_el ''div'' [] [(''id'', js ''calendly-modal'')] [] [],
        mk_el ''button'' [1] [(''data-close-modal'', [])] [] [],
        mk_el ''iframe'' [1] [(''id'', js ''calendly-iframe'')] [] [],
        mk_el ''a'' [1] [(''href'', js ''/privacy'')] [] [],
        mk_el ''a'' [] [(''href'', js ''#contact'')] [] []]"

text \<open>A page with the nav toggle and the menu holding one link; the menu open at a width.\<close>

definition page_nav :: page where
  "page_nav =
     mk_page
       [mk_el ''button'' [] [(''id'', js ''nav-toggle'')] [] [],
        mk_el ''ul'' [] [(''id'', js ''nav-menu'')] [''active''] [],
        mk_el ''a'' [1] [(''href'', js ''#services'')] [''nav-link''] []]"

definition page_nav_open :: "int \<Rightarrow> page" where
  "page_nav_open w = page_nav\<lparr>isOpen := True, innerWidth := w\<rparr>"


section \<open>Updating elements in a loop\<close>

lemma length_mapAt [simp]: "length (mapAt fs g es) = length es"
  by (simp add: mapAt_def)

lemma nth_mapAt [simp]:
  "i < length es \<Longrightarrow> mapAt fs g es ! i = (if i \<in> set fs then g (es ! i) else es ! i)"
  by (simp add: mapAt_def nth_enumerate_eq)

lemma mapAt_Nil [simp]: "mapAt [] g es = es"
  by (rule nth_equalityI) simp_all

lemma mapAt_Cons:
  "x \<notin> set xs \<Longrightarrow> mapAt xs g (es[x := g (es ! x)]) = mapAt (x # xs) g es"
proof (rule nth_equalityI)
  show "length (mapAt xs g (es[x := g (es ! x)])) = length (mapAt (x # xs) g es)" by simp
next
  fix i assume "i < length (mapAt xs g (es[x := g (es ! x)]))"
  then have i: "i < length es" by simp
  assume x: "x \<notin> set xs"
  show "mapAt xs g (es[x := g (es ! x)]) ! i = mapAt (x # xs) g es ! i"
  proof (cases "i = x")
    case True
    with i x show ?thesis by simp
  next
    case False
    with i show ?thesis by (simp add: nth_list_update_neq)
  qed
qed

lemma fold_updElem:
  "distinct fs \<Longrightarrow> fold (\<lambda>i. updElem i g) fs s = s\<lparr>elems := mapAt fs g (elems s)\<rparr>"
proof (induction fs arbitrary: s)
  case Nil
  show ?case by simp
next
  case (Cons x xs)
  then show ?case by (simp add: updElem_def mapAt_Cons)
qed

section \<open>Validation\<close>

lemma truthy_Nil [simp]: "\<not> truthy []"
  by (simp add: truthy_def)

lemma fold_validate_required_Inl: "fold validate_required fs (Inl e, s) = (Inl e, s)"
  by (induction fs) (simp_all add: validate_required_def)

lemma validate_required_step:
  "validate_required f (Inr b, s) =
     (case fvalue (elems s ! f) of
        None \<Rightarrow> (Inl TypeError, s)
      | Some v \<Rightarrow> (Inr (b \<and> truthy (trim v)), updElem f mark_required s))"
  by (simp add: validate_required_def updElem_def mark_required_def set_borderColor_def value_of_def
      split: option.split)

lemma fvalue_updElem_mark:
  "fvalue (elems (updElem x mark_required s) ! f) = fvalue (elems s ! f)"
  by (cases "x < length (elems s)")
     (auto simp: updElem_def mark_required_def nth_list_update list_update_beyond)

lemma value_of_updElem_mark:
  "value_of (elems (updElem x mark_required s) ! f) = value_of (elems s ! f)"
  by (simp add: value_of_def fvalue_updElem_mark)

lemma fold_validate_required:
  "fold validate_required fs (Inr b, s) =
     (if \<forall>f\<in>set fs. fvalue (elems s ! f) \<noteq> None
      then Inr (b \<and> (\<forall>f\<in>set fs. truthy (trim (value_of (elems s ! f)))))
      else Inl TypeError,
      fold (\<lambda>i. updElem i mark_required) (takeWhile (\<lambda>f. fvalue (elems s ! f) \<noteq> None) fs) s)"
proof (induction fs arbitrary: b s)
  case Nil
  show ?case by simp
next
  case (Cons x xs)
  show ?case
  proof (cases "fvalue (elems s ! x)")
    case None
    then show ?thesis
      by (simp add: validate_required_step fold_validate_required_Inl)
  next
    case (Some v)
    then have v: "value_of (elems s ! x) = v" by (simp add: value_of_def)
    from Some v show ?thesis
      by (auto simp: validate_required_step Cons.IH fvalue_updElem_mark value_of_updElem_mark)
  qed
qed

lemma distinct_qsa [simp]: "distinct (querySelectorAll root sel s)"
  by (simp add: querySelectorAll_def)

lemma qsa_in_range: "i \<in> set (querySelectorAll root sel s) \<Longrightarrow> i < length (elems s)"
  by (simp add: querySelectorAll_def)

lemma distinct_checked [simp]: "distinct (checked form s)"
  by (simp add: checked_def distinct_takeWhile)

lemma checked_all: "required_have_value form s \<Longrightarrow> checked form s = querySelectorAll form sel_required s"
  by (simp add: checked_def required_have_value_def)

lemma checked_subset: "i \<in> set (checked form s) \<Longrightarrow> i \<in> set (querySelectorAll form sel_required s)"
  unfolding checked_def by (rule set_takeWhileD [THEN conjunct1])

lemma qsa_mapAt:
  assumes "\<And>e. sel (g e) = sel e" and "\<And>e. ancestors (g e) = ancestors e"
  shows "querySelectorAll root sel (s\<lparr>elems := mapAt fs g (elems s)\<rparr>) = querySelectorAll root sel s"
  unfolding querySelectorAll_def
  by (rule filter_cong) (auto simp: assms)

lemma sel_mark [simp]:
  "sel_required (mark_required e) = sel_required e"
  "sel_input_email (mark_required e) = sel_input_email e"
  "sel_honeypot (mark_required e) = sel_honeypot e"
  "ancestors (mark_required e) = ancestors e"
  "fvalue (mark_required e) = fvalue e"
  "value_of (mark_required e) = value_of e"
  by (simp_all add: mark_required_def sel_required_def sel_input_email_def sel_honeypot_def
      typeAttr_def value_of_def)

lemma first_of_in: "first_of xs = Some x \<Longrightarrow> x \<in> set xs"
  by (cases xs) (simp_all add: first_of_def)

lemma qs_in_range: "querySelector root sel s = Some i \<Longrightarrow> i < length (elems s)"
  unfolding querySelector_def by (drule first_of_in) (rule qsa_in_range)

lemma validateForm_eq:
  "validateForm form s =
     (if required_have_value form s
      then Inr (required_ok form s \<and> (\<forall>i. \<not> email_bad form s i))
      else Inl TypeError,
      s\<lparr>elems :=
          (let es1 = mapAt (checked form s) mark_required (elems s)
           in case querySelector form sel_input_email s of
                None \<Rightarrow> es1
              | Some ef \<Rightarrow>
                  if required_have_value form s \<and> email_bad form s ef
                  then es1[ef := (es1 ! ef)\<lparr>borderColor := color_error\<rparr>]
                  else es1)\<rparr>)"
proof -
  let ?req = "querySelectorAll form sel_required s"
  let ?s1 = "s\<lparr>elems := mapAt (checked form s) mark_required (elems s)\<rparr>"
  have fold: "fold validate_required ?req (Inr True, s) =
      (if required_have_value form s then Inr (required_ok form s) else Inl TypeError, ?s1)"
    by (simp add: fold_validate_required fold_updElem required_ok_def required_have_value_def
        checked_def distinct_takeWhile)
  have q: "querySelector form sel_input_email ?s1 = querySelector form sel_input_email s"
    by (simp add: querySelector_def qsa_mapAt)
  have v: "fvalue (elems ?s1 ! ef) = fvalue (elems s ! ef)"
    if "querySelector form sel_input_email s = Some ef" for ef
    using qs_in_range [OF that] by simp
  show ?thesis
  proof (cases "required_have_value form s")
    case False
    then show ?thesis
      by (simp add: validateForm_def fold Let_def split: option.split)
  next
    case True
    show ?thesis
    proof (cases "querySelector form sel_input_email s")
      case None
      then show ?thesis using True
        by (simp add: validateForm_def fold q email_bad_def Let_def)
    next
      case (Some ef)
      then show ?thesis
        using v [OF Some] True
        by (auto simp: validateForm_def fold q email_bad_def Let_def set_borderColor_def updElem_def
            value_of_def split: option.split)
    qed
  qed
qed

subsection \<open>The regular expression and trimming\<close>

lemma rmatch_Plus:
  "rmatch (Plus k # r) s =
     (\<exists>a b. s = a @ b \<and> a \<noteq> [] \<and> (\<forall>c\<in>set a. cmatch k c) \<and> rmatch r b)"
proof (induction s)
  case Nil
  show ?case by simp
next
  case (Cons c s)
  show ?case
  proof
    assume "rmatch (Plus k # r) (c # s)"
    then have c: "cmatch k c" and d: "rmatch (Plus k # r) s \<or> rmatch r s" by simp_all
    from d show "\<exists>a b. c # s = a @ b \<and> a \<noteq> [] \<and> (\<forall>c\<in>set a. cmatch k c) \<and> rmatch r b"
    proof
      assume "rmatch (Plus k # r) s"
      then obtain a b where "s = a @ b" "\<forall>c\<in>set a. cmatch k c" "rmatch r b"
        using Cons.IH by blast
      with c have "c # s = (c # a) @ b \<and> c # a \<noteq> [] \<and> (\<forall>x\<in>set (c # a). cmatch k x) \<and> rmatch r b"
        by simp
      then show ?thesis by blast
    next
      assume "rmatch r s"
      with c have "c # s = [c] @ s \<and> [c] \<noteq> [] \<and> (\<forall>x\<in>set [c]. cmatch k x) \<and> rmatch r s"
        by simp
      then show ?thesis by blast
    qed
  next
    assume "\<exists>a b. c # s = a @ b \<and> a \<noteq> [] \<and> (\<forall>c\<in>set a. cmatch k c) \<and> rmatch r b"
    then obtain a b where ab: "c # s = a @ b" "a \<noteq> []" "\<forall>c\<in>set a. cmatch k c" "rmatch r b"
      by blast
    then obtain a' where a: "a = c # a'" by (cases a) auto
    with ab have s: "s = a' @ b" and c: "cmatch k c" and a': "\<forall>c\<in>set a'. cmatch k c" by auto
    show "rmatch (Plus k # r) (c # s)"
    proof (cases "a' = []")
      case True
      with s ab c show ?thesis by simp
    next
      case False
      with s a' ab(4) have "rmatch (Plus k # r) s" using Cons.IH by blast
      with c show ?thesis by simp
    qed
  qed
qed

lemma rmatch_One: "rmatch (One k # r) s = (\<exists>c b. s = c # b \<and> cmatch k c \<and> rmatch r b)"
  by (cases s) auto

lemma emailRegex_iff: "regex_test emailRegex v = local_domain_tld v"
  unfolding regex_test_def emailRegex_def local_domain_tld_def
  apply (simp add: rmatch_Plus rmatch_One ball_Un)
  apply (rule iffI)
   apply (elim exE conjE)
   apply blast
  apply (elim exE conjE)
  apply blast
  done

lemma ex_dropWhile: "(\<exists>x\<in>set (dropWhile P v). \<not> P x) = (\<exists>x\<in>set v. \<not> P x)"
  by (induction v) auto

lemma truthy_trim: "truthy (trim v) = (\<exists>c\<in>set v. \<not> isWhiteSpace c)"
proof -
  have "truthy (trim v) = (\<exists>x\<in>set (rev (dropWhile isWhiteSpace v)). \<not> isWhiteSpace x)"
    by (simp add: truthy_def trim_def dropWhile_eq_Nil_conv)
  also have "\<dots> = (\<exists>c\<in>set v. \<not> isWhiteSpace c)"
    by (simp add: ex_dropWhile)
  finally show ?thesis .
qed

lemma count_list_none: "x \<notin> set xs \<Longrightarrow> count_list xs x = 0"
  by (induction xs) auto

lemma dropWhile_until: "x \<notin> set l \<Longrightarrow> dropWhile (\<lambda>c. c \<noteq> x) (l @ x # r) = x # r"
  by (induction l) auto

lemma local_domain_tld_shape:
  assumes "local_domain_tld v"
  shows "(\<forall>c\<in>set v. \<not> isWhiteSpace c) \<and> count_list v 0x40 = 1
    \<and> 0x2E \<in> set (tl (dropWhile (\<lambda>c. c \<noteq> 0x40) v))"
proof -
  from assms obtain l d t where v: "v = l @ [0x40] @ d @ [0x2E] @ t"
    and c: "\<forall>c\<in>set (l @ d @ t). \<not> isWhiteSpace c \<and> c \<noteq> 0x40"
    by (auto simp: local_domain_tld_def)
  have w: "\<not> isWhiteSpace 0x40" "\<not> isWhiteSpace 0x2E" by (simp_all add: isWhiteSpace_def)
  from c have n: "0x40 \<notin> set l" "0x40 \<notin> set d" "0x40 \<notin> set t" by auto
  have 1: "\<forall>c\<in>set v. \<not> isWhiteSpace c" using c w by (auto simp: v)
  have 2: "count_list v 0x40 = 1" using n by (simp add: v count_list_none)
  have "dropWhile (\<lambda>c. c \<noteq> 0x40) v = 0x40 # d @ [0x2E] @ t"
    using dropWhile_until [OF n(1), of "d @ [0x2E] @ t"] by (simp add: v)
  then have 3: "0x2E \<in> set (tl (dropWhile (\<lambda>c. c \<noteq> 0x40) v))" by simp
  from 1 2 3 show ?thesis by blast
qed

lemma required_ok_iff:
  "required_ok form s =
     (\<forall>f\<in>set (querySelectorAll form sel_required s). \<exists>c\<in>set (value_of (elems s ! f)). \<not> isWhiteSpace c)"
  by (simp add: required_ok_def truthy_trim)

lemma required_ok_have_value:
  assumes "required_ok form s"
  shows "required_have_value form s"
  unfolding required_have_value_def
proof
  fix f assume "f \<in> set (querySelectorAll form sel_required s)"
  with assms have "truthy (trim (value_of (elems s ! f)))" by (simp add: required_ok_def)
  then show "fvalue (elems s ! f) \<noteq> None"
    by (cases "fvalue (elems s ! f)") (simp_all add: value_of_def trim_def)
qed

subsection \<open>What validation changes\<close>

lemma validateForm_page: "snd (validateForm form s) = s\<lparr>elems := elems (snd (validateForm form s))\<rparr>"
  by (simp add: validateForm_eq)

lemma validateForm_length [simp]: "length (elems (snd (validateForm form s))) = length (elems s)"
  by (simp add: validateForm_eq Let_def split: option.split)

lemma validateForm_nth:
  assumes "i < length (elems s)"
  shows "elems (snd (validateForm form s)) ! i = (elems s ! i)\<lparr>borderColor := flag_after form s i\<rparr>"
proof (cases "querySelector form sel_input_email s")
  case None
  then show ?thesis using assms
    by (simp add: validateForm_eq flag_after_def email_bad_def mark_required_def)
next
  case (Some ef)
  then show ?thesis using assms qs_in_range [OF Some]
    by (auto simp: validateForm_eq flag_after_def email_bad_def mark_required_def Let_def nth_list_update)
qed

lemma validateForm_result:
  "fst (validateForm form s) =
     (if required_have_value form s
      then Inr (required_ok form s \<and> (\<forall>i. \<not> email_bad form s i))
      else Inl TypeError)"
  by (simp add: validateForm_eq)

lemma validateForm_valid:
  "(fst (validateForm form s) = Inr True) = (required_ok form s \<and> (\<forall>i. \<not> email_bad form s i))"
  using required_ok_have_value [of form s] by (auto simp: validateForm_result)

lemma validateForm_raises:
  "(fst (validateForm form s) = Inl TypeError) = (\<not> required_have_value form s)"
  by (simp add: validateForm_result)

lemma qsa_border:
  assumes len: "length es' = length (elems s)"
    and nth: "\<And>i. i < length (elems s) \<Longrightarrow> \<exists>c. es' ! i = (elems s ! i)\<lparr>borderColor := c\<rparr>"
    and sel: "\<And>e c. sel (e\<lparr>borderColor := c\<rparr>) = sel e"
  shows "querySelectorAll root sel (s\<lparr>elems := es'\<rparr>) = querySelectorAll root sel s"
  unfolding querySelectorAll_def
proof (simp add: len, rule filter_cong)
  fix i assume "i \<in> set [0..<length (elems s)]"
  then have "i < length (elems s)" by simp
  from nth [OF this] obtain c where "es' ! i = (elems s ! i)\<lparr>borderColor := c\<rparr>" ..
  then show "(root \<in> set (ancestors (es' ! i)) \<and> sel (es' ! i)) =
             (root \<in> set (ancestors (elems s ! i)) \<and> sel (elems s ! i))"
    by (simp add: sel)
qed simp

lemma qsa_validateForm:
  assumes "\<And>e c. sel (e\<lparr>borderColor := c\<rparr>) = sel e"
  shows "querySelectorAll root sel (snd (validateForm form s)) = querySelectorAll root sel s"
proof -
  have "querySelectorAll root sel (s\<lparr>elems := elems (snd (validateForm form s))\<rparr>) =
        querySelectorAll root sel s"
    by (rule qsa_border) (auto simp: validateForm_nth assms)
  then show ?thesis using validateForm_page [of form s] by simp
qed

lemma value_of_border [simp]: "value_of (e\<lparr>borderColor := c\<rparr>) = value_of e"
  by (simp add: value_of_def)

lemma honeypot_validateForm:
  "honeypot_filled form (snd (validateForm form s)) = honeypot_filled form s"
proof -
  have q: "querySelector form sel_honeypot (snd (validateForm form s)) = querySelector form sel_honeypot s"
    by (simp add: querySelector_def qsa_validateForm sel_honeypot_def)
  show ?thesis
    by (auto simp: honeypot_filled_def q validateForm_nth dest: qs_in_range split: option.split)
qed

subsection \<open>The submit listener\<close>

lemma elems_prevent [simp]: "elems (preventDefault s) = elems s"
  by (simp add: preventDefault_def)

lemma qsa_prevent [simp]:
  "querySelectorAll root sel (preventDefault s) = querySelectorAll root sel s"
  by (simp add: querySelectorAll_def)

lemma qs_prevent [simp]: "querySelector root sel (preventDefault s) = querySelector root sel s"
  by (simp add: querySelector_def)

lemma email_bad_prevent [simp]: "email_bad form (preventDefault s) i = email_bad form s i"
  by (simp add: email_bad_def)

lemma required_ok_prevent [simp]: "required_ok form (preventDefault s) = required_ok form s"
  by (simp add: required_ok_def)

lemma required_have_value_prevent [simp]:
  "required_have_value form (preventDefault s) = required_have_value form s"
  by (simp add: required_have_value_def)

lemma checked_prevent [simp]: "checked form (preventDefault s) = checked form s"
  by (simp add: checked_def)

lemma honeypot_prevent [simp]: "honeypot_filled form (preventDefault s) = honeypot_filled form s"
  by (simp add: honeypot_filled_def cong: option.case_cong)

lemma validateForm_prevent:
  "validateForm form (preventDefault s) =
     (fst (validateForm form s), preventDefault (snd (validateForm form s)))"
  by (simp add: validateForm_eq Let_def cong: option.case_cong)
     (simp add: preventDefault_def)

lemma pending_button_fields [simp]:
  "trace (pending_button b s) = trace s"
  "inFlight (pending_button b s) = inFlight s"
  by (simp_all add: pending_button_def updElem_def split: option.split)

lemma validateForm_fields [simp]:
  "trace (snd (validateForm form s)) = trace s"
  "inFlight (snd (validateForm form s)) = inFlight s"
  by (simp_all add: validateForm_eq)

lemma preventDefault_fields [simp]:
  "trace (preventDefault s) = trace s"
  "inFlight (preventDefault s) = inFlight s"
  by (simp_all add: preventDefault_def)

lemma honeypot_filled_eq:
  "honeypot_filled form s =
     (case querySelector form sel_honeypot s of
        None \<Rightarrow> False
      | Some h \<Rightarrow> (case fvalue (elems s ! h) of None \<Rightarrow> False | Some v \<Rightarrow> truthy v))"
  by (simp add: honeypot_filled_def value_of_def truthy_def split: option.split)

lemma submit_handler_eq:
  "submit_handler form submitButton s =
     (let s1 = preventDefault (snd (validateForm form s))
      in case fst (validateForm form s) of
           Inl e \<Rightarrow> (Some e, s1)
         | Inr ok \<Rightarrow>
             if \<not> ok \<or> honeypot_filled form s then (None, s1)
             else (None, (pending_button submitButton s1)
                    \<lparr>trace := trace s @ [Fetch], inFlight := Suc (inFlight s)\<rparr>))"
proof -
  let ?s1 = "preventDefault (snd (validateForm form s))"
  have "submit_handler form submitButton s =
     (case fst (validateForm form s) of
        Inl e \<Rightarrow> (Some e, ?s1)
      | Inr ok \<Rightarrow>
          if \<not> ok then (None, ?s1)
          else if honeypot_filled form ?s1 then (None, ?s1)
          else (None, (emit Fetch (pending_button submitButton ?s1))
                 \<lparr>inFlight := Suc (inFlight (emit Fetch (pending_button submitButton ?s1)))\<rparr>))"
    by (simp add: submit_handler_def validateForm_prevent Let_def honeypot_filled_eq
        pending_button_def split: sum.split)
  then show ?thesis
    by (simp add: honeypot_validateForm emit_def Let_def split: sum.split)
qed

lemma submit_handler_stopped:
  "fst (validateForm form s) \<noteq> Inr True \<or> honeypot_filled form s \<Longrightarrow>
     snd (submit_handler form submitButton s) = preventDefault (snd (validateForm form s))"
  by (auto simp: submit_handler_eq Let_def split: sum.split)

lemma submit_handler_sends:
  "fst (validateForm form s) = Inr True \<Longrightarrow> \<not> honeypot_filled form s \<Longrightarrow>
     submit_handler form submitButton s =
       (None, (pending_button submitButton (preventDefault (snd (validateForm form s))))
                \<lparr>trace := trace s @ [Fetch], inFlight := Suc (inFlight s)\<rparr>)"
  by (simp add: submit_handler_eq Let_def)

lemma submit_handler_raises:
  "fst (submit_handler form submitButton s) =
     (if required_have_value form s then None else Some TypeError)"
  by (simp add: submit_handler_eq Let_def validateForm_result)

lemma fold_required_eq:
  "fold validate_required (querySelectorAll form sel_required s) (Inr True, s) =
     (if required_have_value form s then Inr (required_ok form s) else Inl TypeError,
      s\<lparr>elems := mapAt (checked form s) mark_required (elems s)\<rparr>)"
  by (simp add: fold_validate_required fold_updElem required_ok_def required_have_value_def
      checked_def distinct_takeWhile)

section \<open>The claims about the contact form\<close>

lemmas eval_defs =
  mk_page_def mk_el_def markup_focusable_def querySelector_def querySelectorAll_def
  document_querySelectorAll_def
  document_querySelector_def getElementById_def first_of_def getAttribute_def
  sel_required_def sel_input_email_def sel_honeypot_def typeAttr_def ascii_lower_def hasClass_def
  js_def validateForm_def validate_required_def truthy_def trim_def isWhiteSpace_def
  set_borderColor_def set_value_def updElem_def submit_handler_def preventDefault_def emit_def
  regex_test_def emailRegex_def color_error_def value_of_def

lemma bad_addresses:
  "\<not> regex_test emailRegex (js ''a@b'')"
  "\<not> regex_test emailRegex (js ''a.com'')"
  "\<not> regex_test emailRegex (js ''a@@b.com'')"
  by (simp_all add: regex_test_def emailRegex_def js_def isWhiteSpace_def)

text \<open>
  C2, amended.  Validation succeeds iff every required element of the form has a value that
  is not empty once trimmed and the first email input of the form, if there is one, is
  empty or matches \<open>local@domain.tld\<close>.  It raises a \<open>TypeError\<close> iff some required element
  has no \<^verbatim>\<open>value\<close> at all.  Afterwards every element is as before but for its border.  When
  every required element has a value, each of them is flagged when it is blank or is the
  failing email input and cleared otherwise, and the failing email input is flagged also
  when it is not required; an element that is neither keeps its border.  When a required
  element has no value, only the required elements before the first such one are flagged or
  cleared, and every other element is left as it was.  The addresses \<open>a@b\<close>, \<open>a.com\<close> and
  \<open>a@@b.com\<close> in the email input fail validation, and a submit whose validation does not
  succeed calls \<open>fetch\<close> zero times.  A value is not empty once trimmed iff it has a
  character that is not whitespace; a value that matches the pattern has no whitespace,
  exactly one \<open>@\<close> and a dot after it.
\<close>

theorem validateForm_spec:
  "((fst (validateForm form s) = Inr True) =
      (required_ok form s \<and>
       (case querySelector form sel_input_email s of
          None \<Rightarrow> True
        | Some ef \<Rightarrow>
            \<not> truthy (value_of (elems s ! ef)) \<or> local_domain_tld (value_of (elems s ! ef)))))
   \<and> ((fst (validateForm form s) = Inl TypeError) = (\<not> required_have_value form s))
   \<and> (\<forall>i<length (elems s).
         elems (snd (validateForm form s)) ! i = (elems s ! i)\<lparr>borderColor := flag_after form s i\<rparr>)
   \<and> (required_have_value form s \<longrightarrow>
         (\<forall>f\<in>set (querySelectorAll form sel_required s).
            borderColor (elems (snd (validateForm form s)) ! f) =
              (if truthy (trim (value_of (elems s ! f))) \<and> \<not> email_bad form s f
               then [] else color_error))
         \<and> (\<forall>i. email_bad form s i \<longrightarrow>
                borderColor (elems (snd (validateForm form s)) ! i) = color_error))
   \<and> (\<forall>i<length (elems s). i \<notin> set (checked form s) \<and> \<not> required_have_value form s \<longrightarrow>
         elems (snd (validateForm form s)) ! i = elems s ! i)
   \<and> (\<forall>ef. querySelector form sel_input_email s = Some ef
              \<and> fvalue (elems s ! ef)
                  \<in> set [Some (js ''a@b''), Some (js ''a.com''), Some (js ''a@@b.com'')]
            \<longrightarrow> fst (validateForm form s) \<noteq> Inr True)
   \<and> (fst (validateForm form s) \<noteq> Inr True \<longrightarrow>
         trace (snd (submit_handler form submitButton s)) = trace s
         \<and> fetch_count (snd (submit_handler form submitButton s)) = fetch_count s)
   \<and> required_ok form s =
        (\<forall>f\<in>set (querySelectorAll form sel_required s).
           \<exists>c\<in>set (value_of (elems s ! f)). \<not> isWhiteSpace c)
   \<and> (\<forall>v. local_domain_tld v \<longrightarrow>
          (\<forall>c\<in>set v. \<not> isWhiteSpace c) \<and> count_list v 0x40 = 1
          \<and> 0x2E \<in> set (tl (dropWhile (\<lambda>c. c \<noteq> 0x40) v)))"
proof -
  have 1: "(fst (validateForm form s) = Inr True) =
      (required_ok form s \<and>
       (case querySelector form sel_input_email s of
          None \<Rightarrow> True
        | Some ef \<Rightarrow>
            \<not> truthy (value_of (elems s ! ef)) \<or> local_domain_tld (value_of (elems s ! ef))))"
    by (auto simp: validateForm_valid email_bad_def emailRegex_iff split: option.split)
  have r: "(fst (validateForm form s) = Inl TypeError) = (\<not> required_have_value form s)"
    by (rule validateForm_raises)
  have 2: "\<forall>i<length (elems s).
         elems (snd (validateForm form s)) ! i = (elems s ! i)\<lparr>borderColor := flag_after form s i\<rparr>"
    by (simp add: validateForm_nth)
  have f1: "borderColor (elems (snd (validateForm form s)) ! f) =
              (if truthy (trim (value_of (elems s ! f))) \<and> \<not> email_bad form s f
               then [] else color_error)"
    if "required_have_value form s" "f \<in> set (querySelectorAll form sel_required s)" for f
    using that qsa_in_range [OF that(2)]
    by (simp add: validateForm_nth flag_after_def checked_all)
  have f2: "borderColor (elems (snd (validateForm form s)) ! i) = color_error"
    if "required_have_value form s" "email_bad form s i" for i
  proof -
    from that(2) have "i < length (elems s)" by (auto simp: email_bad_def dest: qs_in_range)
    with that show ?thesis by (simp add: validateForm_nth flag_after_def)
  qed
  have f: "required_have_value form s \<longrightarrow>
         (\<forall>f\<in>set (querySelectorAll form sel_required s).
            borderColor (elems (snd (validateForm form s)) ! f) =
              (if truthy (trim (value_of (elems s ! f))) \<and> \<not> email_bad form s f
               then [] else color_error))
         \<and> (\<forall>i. email_bad form s i \<longrightarrow>
                borderColor (elems (snd (validateForm form s)) ! i) = color_error)"
    using f1 f2 by blast
  have k: "\<forall>i<length (elems s). i \<notin> set (checked form s) \<and> \<not> required_have_value form s \<longrightarrow>
         elems (snd (validateForm form s)) ! i = elems s ! i"
    by (simp add: validateForm_nth flag_after_def)
  have 3: "fst (validateForm form s) \<noteq> Inr True"
    if "querySelector form sel_input_email s = Some ef"
      and "fvalue (elems s ! ef)
             \<in> set [Some (js ''a@b''), Some (js ''a.com''), Some (js ''a@@b.com'')]" for ef
  proof -
    from that(2) have "value_of (elems s ! ef) \<in> set [js ''a@b'', js ''a.com'', js ''a@@b.com'']"
      by (auto simp: value_of_def)
    then have "\<not> regex_test emailRegex (value_of (elems s ! ef)) \<and> truthy (value_of (elems s ! ef))"
      using bad_addresses by (auto simp: truthy_def js_def)
    with that(1) have "email_bad form s ef" by (simp add: email_bad_def)
    then show ?thesis by (auto simp: validateForm_valid)
  qed
  have 4: "trace (snd (submit_handler form submitButton s)) = trace s
         \<and> fetch_count (snd (submit_handler form submitButton s)) = fetch_count s"
    if "fst (validateForm form s) \<noteq> Inr True"
    using that by (simp add: submit_handler_stopped fetch_count_def)
  have 5: "\<forall>v. local_domain_tld v \<longrightarrow>
          (\<forall>c\<in>set v. \<not> isWhiteSpace c) \<and> count_list v 0x40 = 1
          \<and> 0x2E \<in> set (tl (dropWhile (\<lambda>c. c \<noteq> 0x40) v))"
    using local_domain_tld_shape by blast
  have c3: "\<forall>ef. querySelector form sel_input_email s = Some ef
              \<and> fvalue (elems s ! ef)
                  \<in> set [Some (js ''a@b''), Some (js ''a.com''), Some (js ''a@@b.com'')]
            \<longrightarrow> fst (validateForm form s) \<noteq> Inr True"
    using 3 by blast
  have c4: "fst (validateForm form s) \<noteq> Inr True \<longrightarrow>
         trace (snd (submit_handler form submitButton s)) = trace s
         \<and> fetch_count (snd (submit_handler form submitButton s)) = fetch_count s"
    using 4 by blast
  from 1 r 2 f k c3 c4 required_ok_iff [of form s] 5 show ?thesis
    by (intro conjI)
qed

text \<open>
  The theorem at a form whose required email input holds \<open>a@b\<close> and whose required name is
  blank: validation fails, both fields are flagged, nothing is sent.  And at a form whose
  first required element is a \<^verbatim>\<open>div\<close>: validation raises, the blank name after the \<^verbatim>\<open>div\<close>
  is not flagged, nothing is sent.
\<close>

theorem validateForm_spec_witness:
  "fst (validateForm 0 page_bad_email) = Inr False
   \<and> borderColor (elems (snd (validateForm 0 page_bad_email)) ! 1) = js ''var(--color-error)''
   \<and> borderColor (elems (snd (validateForm 0 page_bad_email)) ! 2) = js ''var(--color-error)''
   \<and> trace (snd (submit_handler 0 None page_bad_email)) = []
   \<and> fst (validateForm 0 page_required_div) = Inl TypeError
   \<and> elems (snd (validateForm 0 page_required_div)) ! 2 = elems page_required_div ! 2
   \<and> trace (snd (submit_handler 0 None page_required_div)) = []"
proof -
  have q: "querySelector 0 sel_input_email page_bad_email = Some 1"
    by (simp add: page_bad_email_def eval_defs)
  have v: "fvalue (elems page_bad_email ! 1)
      \<in> set [Some (js ''a@b''), Some (js ''a.com''), Some (js ''a@@b.com'')]"
    by (simp add: page_bad_email_def eval_defs)
  have h: "required_have_value 0 page_bad_email"
    by (simp add: required_have_value_def page_bad_email_def eval_defs)
  have rq: "querySelectorAll 0 sel_required page_bad_email = [1, 2]"
    by (simp add: page_bad_email_def eval_defs)
  have b2: "\<not> truthy (trim (value_of (elems page_bad_email ! 2)))"
    by (simp add: page_bad_email_def eval_defs)
  have eb: "email_bad 0 page_bad_email 1"
    by (simp add: email_bad_def page_bad_email_def eval_defs)
  have t: "trace page_bad_email = []"
    by (simp add: page_bad_email_def eval_defs)
  note T = validateForm_spec [of 0 page_bad_email None]
  from T q v have nv: "fst (validateForm 0 page_bad_email) \<noteq> Inr True" by blast
  from T h have nr: "fst (validateForm 0 page_bad_email) \<noteq> Inl TypeError" by blast
  from nv nr have a1: "fst (validateForm 0 page_bad_email) = Inr False"
    by (cases "fst (validateForm 0 page_bad_email)") (auto intro: error.exhaust)
  from T h have fl: "\<forall>f\<in>set (querySelectorAll 0 sel_required page_bad_email).
            borderColor (elems (snd (validateForm 0 page_bad_email)) ! f) =
              (if truthy (trim (value_of (elems page_bad_email ! f))) \<and> \<not> email_bad 0 page_bad_email f
               then [] else color_error)"
    by blast
  from fl rq eb b2
  have a2: "borderColor (elems (snd (validateForm 0 page_bad_email)) ! 1) = js ''var(--color-error)''"
    and a3: "borderColor (elems (snd (validateForm 0 page_bad_email)) ! 2) = js ''var(--color-error)''"
    by (simp_all add: color_error_def)
  from T nv have "trace (snd (submit_handler 0 None page_bad_email)) = trace page_bad_email"
    by blast
  with t have a4: "trace (snd (submit_handler 0 None page_bad_email)) = []" by simp
  have h': "\<not> required_have_value 0 page_required_div"
    by (simp add: required_have_value_def page_required_div_def eval_defs)
  have c': "checked 0 page_required_div = []"
    by (simp add: checked_def page_required_div_def eval_defs)
  have l': "length (elems page_required_div) = 3" "trace page_required_div = []"
    by (simp_all add: page_required_div_def eval_defs)
  note U = validateForm_spec [of 0 page_required_div None]
  from U h' have a5: "fst (validateForm 0 page_required_div) = Inl TypeError" by blast
  from U have "\<forall>i<length (elems page_required_div).
      i \<notin> set (checked 0 page_required_div) \<and> \<not> required_have_value 0 page_required_div \<longrightarrow>
         elems (snd (validateForm 0 page_required_div)) ! i = elems page_required_div ! i"
    by blast
  with h' c' l' have a6: "elems (snd (validateForm 0 page_required_div)) ! 2 = elems page_required_div ! 2"
    by simp
  from a5 have "fst (validateForm 0 page_required_div) \<noteq> Inr True" by simp
  with U have "trace (snd (submit_handler 0 None page_required_div)) = trace page_required_div"
    by blast
  with l' have a7: "trace (snd (submit_handler 0 None page_required_div)) = []" by simp
  from a1 a2 a3 a4 a5 a6 a7 show ?thesis by (intro conjI)
qed

text \<open>
  C2 as stated fails.  With an optional email input left empty and the required name filled,
  validation succeeds although the empty value does not match the pattern; when that email
  input still carries a flag, validation passes it and leaves the flag in place; and in a
  form whose first required element is a \<^verbatim>\<open>div\<close>, the required name after it is blank and
  is not flagged.
\<close>

theorem validateForm_spec_counterexample:
  "fst (validateForm 0 page_optional_email) = Inr True \<and> \<not> spec_valid 0 page_optional_email
   \<and> fst (validateForm 0 page_flagged_email) = Inr True
   \<and> borderColor (elems page_flagged_email ! 1) = js ''var(--color-error)''
   \<and> borderColor (elems (snd (validateForm 0 page_flagged_email)) ! 1) = js ''var(--color-error)''
   \<and> 2 \<in> set (querySelectorAll 0 sel_required page_required_div)
   \<and> fvalue (elems page_required_div ! 2) = Some []
   \<and> fst (validateForm 0 page_required_div) \<noteq> Inr True
   \<and> borderColor (elems (snd (validateForm 0 page_required_div)) ! 2) = []"
proof -
  have "\<not> regex_test emailRegex []"
    by (simp add: regex_test_def emailRegex_def)
  then have "\<not> local_domain_tld []" by (simp add: emailRegex_iff)
  moreover have "querySelector 0 sel_input_email page_optional_email = Some 1"
    by (simp add: page_optional_email_def eval_defs)
  moreover have "value_of (elems page_optional_email ! 1) = []"
    by (simp add: page_optional_email_def eval_defs)
  moreover have "fst (validateForm 0 page_optional_email) = Inr True"
    by (simp add: page_optional_email_def eval_defs)
  ultimately have 1: "fst (validateForm 0 page_optional_email) = Inr True
      \<and> \<not> spec_valid 0 page_optional_email"
    by (simp add: spec_valid_def)
  have 2: "fst (validateForm 0 page_flagged_email) = Inr True
   \<and> borderColor (elems page_flagged_email ! 1) = js ''var(--color-error)''
   \<and> borderColor (elems (snd (validateForm 0 page_flagged_email)) ! 1) = js ''var(--color-error)''"
    by (simp add: page_flagged_email_def page_optional_email_def eval_defs)
  have 3: "2 \<in> set (querySelectorAll 0 sel_required page_required_div)
   \<and> fvalue (elems page_required_div ! 2) = Some []
   \<and> fst (validateForm 0 page_required_div) \<noteq> Inr True
   \<and> borderColor (elems (snd (validateForm 0 page_required_div)) ! 2) = []"
    by (simp add: page_required_div_def eval_defs)
  from 1 2 3 show ?thesis by simp
qed

text \<open>
  C10.  When the email input of the form is empty the format check is skipped: validation
  is the required-field loop alone.  It succeeds iff the required-field check does (and
  raises iff that loop does), the page is the one the loop left, and a form that passes
  with an empty honeypot goes on to the one \<open>fetch\<close> call.
\<close>

theorem empty_email_not_checked:
  assumes "querySelector form sel_input_email s = Some ef"
    and "\<not> truthy (value_of (elems s ! ef))"
  shows "validateForm form s =
        fold validate_required (querySelectorAll form sel_required s) (Inr True, s)
    \<and> (fst (validateForm form s) = Inr True) = required_ok form s
    \<and> fst (validateForm form s) =
        (if required_have_value form s then Inr (required_ok form s) else Inl TypeError)
    \<and> snd (validateForm form s) = s\<lparr>elems := mapAt (checked form s) mark_required (elems s)\<rparr>
    \<and> (required_have_value form s \<longrightarrow>
         snd (validateForm form s) =
           s\<lparr>elems := mapAt (querySelectorAll form sel_required s) mark_required (elems s)\<rparr>)
    \<and> (required_ok form s \<and> \<not> honeypot_filled form s \<longrightarrow>
         trace (snd (submit_handler form submitButton s)) = trace s @ [Fetch])"
proof -
  from assms have nb: "\<not> email_bad form s i" for i
    by (auto simp: email_bad_def)
  from assms nb have e: "validateForm form s =
      (if required_have_value form s then Inr (required_ok form s) else Inl TypeError,
       s\<lparr>elems := mapAt (checked form s) mark_required (elems s)\<rparr>)"
    by (simp add: validateForm_eq)
  then have a: "validateForm form s =
        fold validate_required (querySelectorAll form sel_required s) (Inr True, s)"
    by (simp add: fold_required_eq)
  from nb have v: "(fst (validateForm form s) = Inr True) = required_ok form s"
    by (simp add: validateForm_valid)
  from e have r: "fst (validateForm form s) =
        (if required_have_value form s then Inr (required_ok form s) else Inl TypeError)"
    by simp
  from e have p: "snd (validateForm form s) =
      s\<lparr>elems := mapAt (checked form s) mark_required (elems s)\<rparr>"
    by simp
  then have p': "required_have_value form s \<longrightarrow>
         snd (validateForm form s) =
           s\<lparr>elems := mapAt (querySelectorAll form sel_required s) mark_required (elems s)\<rparr>"
    by (simp add: checked_all)
  from v have "trace (snd (submit_handler form submitButton s)) = trace s @ [Fetch]"
    if "required_ok form s" "\<not> honeypot_filled form s"
    using that by (simp add: submit_handler_sends)
  then have f: "required_ok form s \<and> \<not> honeypot_filled form s \<longrightarrow>
         trace (snd (submit_handler form submitButton s)) = trace s @ [Fetch]"
    by blast
  from a v r p p' f show ?thesis by (intro conjI)
qed

text \<open>The theorem at the form with the empty optional email input.\<close>

theorem empty_email_not_checked_witness:
  "querySelector 0 sel_input_email page_optional_email = Some 1
   \<and> fvalue (elems page_optional_email ! 1) = Some []
   \<and> fst (validateForm 0 page_optional_email) = Inr True
   \<and> trace (snd (submit_handler 0 None page_optional_email)) = [Fetch]"
proof -
  have q: "querySelector 0 sel_input_email page_optional_email = Some 1"
    by (simp add: page_optional_email_def eval_defs)
  have v: "fvalue (elems page_optional_email ! 1) = Some []"
    by (simp add: page_optional_email_def eval_defs)
  then have nt: "\<not> truthy (value_of (elems page_optional_email ! 1))"
    by (simp add: value_of_def)
  have r: "required_ok 0 page_optional_email"
    by (simp add: required_ok_def page_optional_email_def eval_defs)
  have h: "\<not> honeypot_filled 0 page_optional_email"
    by (simp add: honeypot_filled_def page_optional_email_def eval_defs)
  have t: "trace page_optional_email = []"
    by (simp add: page_optional_email_def eval_defs)
  note T = empty_email_not_checked [OF q nt, of None]
  from T r have a: "fst (validateForm 0 page_optional_email) = Inr True" by blast
  from T r h have "trace (snd (submit_handler 0 None page_optional_email))
      = trace page_optional_email @ [Fetch]"
    by blast
  with t have b: "trace (snd (submit_handler 0 None page_optional_email)) = [Fetch]" by simp
  from q v a b show ?thesis by (intro conjI)
qed

text \<open>
  C1, amended.  A submit with a filled honeypot calls \<open>fetch\<close> zero times and raises no
  notice, whatever the other fields hold; the page afterwards is the page validation
  leaves, so the only visible change is the border of the fields validation flags or
  clears.  On a form that is valid the change is that the borders of the required fields
  are cleared.  The listener ends normally unless a required element has no \<^verbatim>\<open>value\<close>, in
  which case the \<open>TypeError\<close> of validation ends it.
\<close>

theorem honeypot_abandons_submit:
  assumes "honeypot_filled form s"
  shows "snd (submit_handler form submitButton s) = preventDefault (snd (validateForm form s))
    \<and> fst (submit_handler form submitButton s) =
        (if required_have_value form s then None else Some TypeError)
    \<and> trace (snd (submit_handler form submitButton s)) = trace s
    \<and> fetch_count (snd (submit_handler form submitButton s)) = fetch_count s
    \<and> (\<forall>i<length (elems s).
          elems (snd (submit_handler form submitButton s)) ! i =
            (elems s ! i)\<lparr>borderColor := flag_after form s i\<rparr>)
    \<and> (fst (validateForm form s) = Inr True \<longrightarrow>
         (\<forall>i<length (elems s).
            elems (snd (submit_handler form submitButton s)) ! i =
              (if i \<in> set (querySelectorAll form sel_required s)
               then (elems s ! i)\<lparr>borderColor := []\<rparr> else elems s ! i)))"
proof -
  from assms have e: "snd (submit_handler form submitButton s) = preventDefault (snd (validateForm form s))"
    by (simp add: submit_handler_stopped)
  have v: "elems (snd (submit_handler form submitButton s)) ! i =
      (if i \<in> set (querySelectorAll form sel_required s)
       then (elems s ! i)\<lparr>borderColor := []\<rparr> else elems s ! i)"
    if ok: "fst (validateForm form s) = Inr True" and i: "i < length (elems s)" for i
  proof -
    from ok have r: "required_ok form s" and b: "\<not> email_bad form s i"
      by (simp_all add: validateForm_valid)
    from r have h: "required_have_value form s" by (rule required_ok_have_value)
    from r have "truthy (trim (value_of (elems s ! i)))"
      if "i \<in> set (querySelectorAll form sel_required s)"
      using that by (simp add: required_ok_def)
    then have "flag_after form s i =
        (if i \<in> set (querySelectorAll form sel_required s) then [] else borderColor (elems s ! i))"
      using b h by (simp add: flag_after_def checked_all)
    with i show ?thesis by (simp add: e validateForm_nth)
  qed
  from e v show ?thesis
    by (simp add: submit_handler_raises fetch_count_def validateForm_nth)
qed

text \<open>
  The theorem at a form that is valid and has a filled honeypot: nothing is sent and no
  field is flagged, while the same form with the honeypot empty is sent.  And at a form
  with a filled honeypot and a blank required field.
\<close>

theorem honeypot_abandons_submit_witness:
  "honeypot_filled 0 page_bot_valid
   \<and> fst (validateForm 0 page_bot_valid) = Inr True
   \<and> submit_handler 0 None page_bot_valid = (None, preventDefault page_bot_valid)
   \<and> fetch_count (snd (submit_handler 0 None page_bot_valid)) = 0
   \<and> trace (snd (submit_handler 0 None page_bot_valid)) = []
   \<and> \<not> honeypot_filled 0 page_human
   \<and> trace (snd (submit_handler 0 None page_human)) = [Fetch]
   \<and> honeypot_filled 0 page_bot
   \<and> fetch_count (snd (submit_handler 0 None page_bot)) = 0
   \<and> trace (snd (submit_handler 0 None page_bot)) = []"
proof -
  have h: "honeypot_filled 0 page_bot_valid"
    by (simp add: honeypot_filled_def page_bot_valid_def eval_defs)
  have ok: "fst (validateForm 0 page_bot_valid) = Inr True"
    by (simp add: page_bot_valid_def eval_defs)
  have sv: "snd (validateForm 0 page_bot_valid) = page_bot_valid"
    by (simp add: page_bot_valid_def eval_defs)
  have hv: "required_have_value 0 page_bot_valid"
    by (simp add: required_have_value_def page_bot_valid_def eval_defs)
  have t: "trace page_bot_valid = []" "fetch_count page_bot_valid = 0"
    by (simp_all add: fetch_count_def page_bot_valid_def eval_defs)
  note T = honeypot_abandons_submit [OF h, of None]
  from T have "snd (submit_handler 0 None page_bot_valid)
      = preventDefault (snd (validateForm 0 page_bot_valid))"
    by blast
  with sv have a1: "snd (submit_handler 0 None page_bot_valid) = preventDefault page_bot_valid"
    by simp
  from T have "fst (submit_handler 0 None page_bot_valid) =
      (if required_have_value 0 page_bot_valid then None else Some TypeError)"
    by blast
  with hv have a2: "fst (submit_handler 0 None page_bot_valid) = None" by simp
  from a1 a2 have a: "submit_handler 0 None page_bot_valid = (None, preventDefault page_bot_valid)"
    by (simp add: prod_eq_iff)
  from T have "fetch_count (snd (submit_handler 0 None page_bot_valid)) = fetch_count page_bot_valid"
    and "trace (snd (submit_handler 0 None page_bot_valid)) = trace page_bot_valid"
    by blast+
  with t have b: "fetch_count (snd (submit_handler 0 None page_bot_valid)) = 0"
    and c: "trace (snd (submit_handler 0 None page_bot_valid)) = []"
    by simp_all
  have d: "\<not> honeypot_filled 0 page_human \<and> trace (snd (submit_handler 0 None page_human)) = [Fetch]"
    by (simp add: honeypot_filled_def page_human_def page_bot_valid_def eval_defs)
  have h': "honeypot_filled 0 page_bot"
    by (simp add: honeypot_filled_def page_bot_def eval_defs)
  have t': "trace page_bot = []" "fetch_count page_bot = 0"
    by (simp_all add: fetch_count_def page_bot_def eval_defs)
  note U = honeypot_abandons_submit [OF h', of None]
  from U have "fetch_count (snd (submit_handler 0 None page_bot)) = fetch_count page_bot"
    and "trace (snd (submit_handler 0 None page_bot)) = trace page_bot"
    by blast+
  with t' have e: "fetch_count (snd (submit_handler 0 None page_bot)) = 0"
    and f: "trace (snd (submit_handler 0 None page_bot)) = []"
    by simp_all
  from h ok a b c d h' e f show ?thesis by (intro conjI) simp_all
qed

text \<open>
  C1 as stated fails: with a filled honeypot and a blank required field, the submit flags
  the blank field, which is feedback the user sees.
\<close>

theorem honeypot_feedback_counterexample:
  "honeypot_filled 0 page_bot
   \<and> borderColor (elems page_bot ! 1) = []
   \<and> borderColor (elems (snd (submit_handler 0 None page_bot)) ! 1) = js ''var(--color-error)''"
  by (simp add: honeypot_filled_def page_bot_def eval_defs)

section \<open>Settling the submission\<close>

lemma updElem_length [simp]: "length (elems (updElem i f s)) = length (elems s)"
  by (simp add: updElem_def)

lemma updElem_nth:
  "j < length (elems s) \<Longrightarrow>
     elems (updElem i f s) ! j = (if j = i then f (elems s ! j) else elems s ! j)"
  by (simp add: updElem_def nth_list_update)

lemma updElem_other [simp]:
  "trace (updElem i f s) = trace s"
  "inFlight (updElem i f s) = inFlight s"
  "activeElement (updElem i f s) = activeElement s"
  "isOpen (updElem i f s) = isOpen s"
  "isModalOpen (updElem i f s) = isModalOpen s"
  "iframeSrcSet (updElem i f s) = iframeSrcSet s"
  "innerWidth (updElem i f s) = innerWidth s"
  "focusableElements (updElem i f s) = focusableElements s"
  "firstFocusableElement (updElem i f s) = firstFocusableElement s"
  "lastFocusableElement (updElem i f s) = lastFocusableElement s"
  "defaultPrevented (updElem i f s) = defaultPrevented s"
  "listeners (updElem i f s) = listeners s"
  "bodyClassList (updElem i f s) = bodyClassList s"
  by (simp_all add: updElem_def)

lemma forEach_updElem:
  "distinct fs \<Longrightarrow> forEach fs (\<lambda>i. updElem i g) s = s\<lparr>elems := mapAt fs g (elems s)\<rparr>"
  by (simp add: forEach_def fold_updElem)

lemma qsa_cong:
  assumes "length (elems s') = length (elems s)"
    and "\<And>i. i < length (elems s) \<Longrightarrow>
           ancestors (elems s' ! i) = ancestors (elems s ! i) \<and> sel (elems s' ! i) = sel (elems s ! i)"
  shows "querySelectorAll root sel s' = querySelectorAll root sel s"
  unfolding querySelectorAll_def using assms by (auto intro!: filter_cong)

lemma dqsa_cong:
  assumes "length (elems s') = length (elems s)"
    and "\<And>i. i < length (elems s) \<Longrightarrow> sel (elems s' ! i) = sel (elems s ! i)"
  shows "document_querySelectorAll sel s' = document_querySelectorAll sel s"
  unfolding document_querySelectorAll_def using assms by (auto intro!: filter_cong)

lemma distinct_dqsa [simp]: "distinct (document_querySelectorAll sel s)"
  by (simp add: document_querySelectorAll_def)

lemma dqsa_in_range: "i \<in> set (document_querySelectorAll sel s) \<Longrightarrow> i < length (elems s)"
  by (simp add: document_querySelectorAll_def)

lemma getElementById_in_range: "getElementById n s = Some i \<Longrightarrow> i < length (elems s)"
  unfolding getElementById_def document_querySelector_def
  by (drule first_of_in) (rule dqsa_in_range)

lemma reset_card_eq: "reset_card c s = updElem c card_reset_el s"
proof (cases "c < length (elems s)")
  case True
  then show ?thesis
    by (simp add: reset_card_def classList_remove_def classList_add_def getAttribute_def
        updElem_def card_reset_el_def Let_def)
next
  case False
  then show ?thesis
    by (simp add: reset_card_def classList_remove_def classList_add_def getAttribute_def
        updElem_def card_reset_el_def Let_def list_update_beyond)
qed

lemma set_token_add [simp]: "set (token_add c cs) = insert c (set cs)"
  by (auto simp: token_add_def)

lemma set_token_remove [simp]: "set (token_remove c cs) = set cs - {c}"
  by (auto simp: token_remove_def)

lemma reset_control_keeps [simp]:
  "tagName (reset_control e) = tagName e"
  "attrs (reset_control e) = attrs e"
  "ancestors (reset_control e) = ancestors e"
  "classList (reset_control e) = classList e"
  "defaultValue (reset_control e) = defaultValue e"
  by (simp_all add: reset_control_def)

lemma card_reset_el_keeps [simp]:
  "tagName (card_reset_el e) = tagName e"
  "attrs (card_reset_el e) = attrs e"
  "ancestors (card_reset_el e) = ancestors e"
  "fvalue (card_reset_el e) = fvalue e"
  "disabled (card_reset_el e) = disabled e"
  "innerHTML (card_reset_el e) = innerHTML e"
  by (simp_all add: card_reset_el_def)

lemma submit_success_eq:
  "submit_success form successMessage s =
     s\<lparr>elems := map (success_el form successMessage s) [0..<length (elems s)]\<rparr>"
proof -
  define s1 where "s1 = (case successMessage of None \<Rightarrow> s | Some m \<Rightarrow> classList_add m ''show'' s)"
  define R where "R = querySelectorAll form sel_resettable s"
  define s2 where "s2 = form_reset form s1"
  define b where "b = getElementById ''business-type'' s"
  define s3 where "s3 = (case b of None \<Rightarrow> s2 | Some i \<Rightarrow> set_value i (js ''dental'') s2)"
  define C where "C = document_querySelectorAll (hasClass ''business-type-card'') s"
  have l1: "length (elems s1) = length (elems s)"
    by (simp add: s1_def classList_add_def split: option.split)
  have n1: "elems s1 ! i =
      (if successMessage = Some i
       then (elems s ! i)\<lparr>classList := token_add ''show'' (classList (elems s ! i))\<rparr>
       else elems s ! i)" if "i < length (elems s)" for i
    using that by (auto simp: s1_def classList_add_def updElem_nth split: option.split)
  have p1: "s1 = s\<lparr>elems := elems s1\<rparr>"
    by (simp add: s1_def classList_add_def updElem_def split: option.split)
  have R1: "querySelectorAll form sel_resettable s1 = R"
    unfolding R_def by (rule qsa_cong) (auto simp: l1 n1 sel_resettable_def)
  have e2: "s2 = s1\<lparr>elems := mapAt R reset_control (elems s1)\<rparr>"
    by (simp add: s2_def form_reset_def R1 [symmetric] forEach_updElem)
  have l2: "length (elems s2) = length (elems s)" by (simp add: e2 l1)
  have b2: "getElementById ''business-type'' s2 = b"
    unfolding b_def getElementById_def document_querySelector_def
    by (rule arg_cong [where f = first_of], rule dqsa_cong) (auto simp: l2 e2 l1 n1)
  have e3: "s3 = (case b of None \<Rightarrow> s2 | Some i \<Rightarrow> updElem i (\<lambda>e. e\<lparr>fvalue := Some (js ''dental'')\<rparr>) s2)"
    by (simp add: s3_def set_value_def split: option.split)
  have l3: "length (elems s3) = length (elems s)"
    by (simp add: e3 l2 split: option.split)
  have n3: "elems s3 ! i =
      (if b = Some i then (elems s2 ! i)\<lparr>fvalue := Some (js ''dental'')\<rparr> else elems s2 ! i)"
    if "i < length (elems s)" for i
    using that by (auto simp: e3 l2 updElem_nth split: option.split)
  have C3: "document_querySelectorAll (hasClass ''business-type-card'') s3 = C"
    unfolding C_def
    by (rule dqsa_cong) (auto simp: l3 n3 e2 l1 n1 hasClass_def)
  have fin: "submit_success form successMessage s = forEach C reset_card s3"
    unfolding submit_success_def Let_def s1_def [symmetric] s2_def [symmetric] b2
      s3_def [symmetric] C3
    by (rule refl)
  have rc: "reset_card = (\<lambda>i. updElem i card_reset_el)"
    by (rule ext, rule ext) (simp add: reset_card_eq)
  have fin2: "submit_success form successMessage s = s3\<lparr>elems := mapAt C card_reset_el (elems s3)\<rparr>"
    by (simp add: fin rc forEach_updElem C_def)
  have p3: "s3 = s\<lparr>elems := elems s3\<rparr>"
  proof -
    from p1 obtain es where "s1 = s\<lparr>elems := es\<rparr>" ..
    then show ?thesis by (simp add: e3 e2 updElem_def split: option.split)
  qed
  have "mapAt C card_reset_el (elems s3) = map (success_el form successMessage s) [0..<length (elems s)]"
    by (rule nth_equalityI)
       (auto simp: l3 n3 e2 l1 n1 success_el_def Let_def R_def b_def C_def)
  moreover from p3 obtain es where "s3 = s\<lparr>elems := es\<rparr>" ..
  ultimately show ?thesis using fin2 by simp
qed

lemma keeps_value_classList [simp]: "keeps_value (e\<lparr>classList := c\<rparr>) = keeps_value e"
  by (simp add: keeps_value_def typeAttr_def)

lemma submit_success_length [simp]:
  "length (elems (submit_success form successMessage s)) = length (elems s)"
  by (simp add: submit_success_eq)


lemma submit_success_fields [simp]:
  "trace (submit_success form successMessage s) = trace s"
  "inFlight (submit_success form successMessage s) = inFlight s"
  by (simp_all add: submit_success_eq)

lemma submit_finally_length [simp]:
  "length (elems (submit_finally submitButton s)) = length (elems s)"
  by (simp add: submit_finally_def split: option.split)


lemma submit_finally_fields [simp]:
  "trace (submit_finally submitButton s) = trace s"
  "inFlight (submit_finally submitButton s) = inFlight s"
  by (simp_all add: submit_finally_def split: option.split)

lemma submit_failure_fields [simp]:
  "trace (submit_failure s) = trace s @ [ConsoleError, Alert alert_message]"
  "inFlight (submit_failure s) = inFlight s"
  "elems (submit_failure s) = elems s"
  by (simp_all add: submit_failure_def emit_def)







lemmas query_defs =
  mk_page_def mk_el_def querySelector_def querySelectorAll_def document_querySelectorAll_def
  document_querySelector_def getElementById_def first_of_def getAttribute_def
  sel_required_def sel_input_email_def sel_honeypot_def typeAttr_def ascii_lower_def hasClass_def
  js_def sel_resettable_def keeps_value_def markup_focusable_def


section \<open>Initialisation never raises\<close>

lemma forEach_listen:
  "forEach xs (\<lambda>x. addEventListener (T x) ty (H x)) s =
     s\<lparr>listeners := listeners s @ map (\<lambda>x. (T x, ty, H x)) xs\<rparr>"
  unfolding forEach_def
  by (induction xs arbitrary: s) (simp_all add: addEventListener_def)

lemma dqsa_elems:
  "elems s' = elems s \<Longrightarrow> document_querySelectorAll sel s' = document_querySelectorAll sel s"
  by (simp add: document_querySelectorAll_def)

lemma getElementById_elems: "elems s' = elems s \<Longrightarrow> getElementById n s' = getElementById n s"
  by (simp add: getElementById_def document_querySelector_def document_querySelectorAll_def)

lemma qs_elems: "elems s' = elems s \<Longrightarrow> querySelector root sel s' = querySelector root sel s"
  by (simp add: querySelector_def querySelectorAll_def)

lemma initPreloader_eq:
  "initPreloader s =
     Inr (case getElementById ''preloader'' s of
            None \<Rightarrow> s
          | Some p \<Rightarrow> s\<lparr>listeners := listeners s @ [(Window, ''load'', PreloaderLoad p)]\<rparr>)"
  by (simp add: initPreloader_def Let_def deref_def bind_err_def addEventListener_def
      split: option.split)

lemma initStickyNavbar_eq:
  "initStickyNavbar s =
     Inr (case getElementById ''navbar'' s of
            None \<Rightarrow> s
          | Some n \<Rightarrow> s\<lparr>listeners := listeners s @ [(Window, ''scroll'', NavbarScroll n)]\<rparr>)"
  by (simp add: initStickyNavbar_def Let_def deref_def bind_err_def addEventListener_def
      split: option.split)

lemma initMobileNav_eq:
  "initMobileNav s =
     Inr (case (getElementById ''nav-toggle'' s, getElementById ''nav-menu'' s) of
            (Some t, Some m) \<Rightarrow>
              s\<lparr>isOpen := False,
                listeners := listeners s @
                  [(Elem t, ''click'', NavToggleClick t m),
                   (Document, ''click'', NavOutsideClick t m),
                   (Document, ''keydown'', NavEscape t m)] @
                  map (\<lambda>link. (Elem link, ''click'', NavLinkClick t m))
                    (querySelectorAll m sel_a s)\<rparr>
          | _ \<Rightarrow> s)"
  by (simp add: initMobileNav_def Let_def deref_def bind_err_def addEventListener_def
      forEach_listen querySelectorAll_def split: option.split)

lemma initSmoothNavigation_eq:
  "initSmoothNavigation s =
     Inr (s\<lparr>listeners := listeners s @
            map (\<lambda>link. (Elem link, ''click'',
                   SmoothScrollClick link
                     (case getElementById ''navbar'' s of
                        None \<Rightarrow> 80
                      | Some n \<Rightarrow> offsetHeight (elems s ! n))))
              (document_querySelectorAll sel_anchor_hash s) @
            map (\<lambda>sec. (Elem sec, ''intersect'',
                   Observe (case getElementById ''navbar'' s of
                              None \<Rightarrow> 80
                            | Some n \<Rightarrow> offsetHeight (elems s ! n))))
              (document_querySelectorAll sel_section_id s)\<rparr>)"
  by (simp add: initSmoothNavigation_def Let_def forEach_listen document_querySelectorAll_def)

lemma initBusinessTypeSelector_eq:
  "initBusinessTypeSelector s =
     Inr (case getElementById ''business-type'' s of
            None \<Rightarrow> s
          | Some b \<Rightarrow>
              s\<lparr>listeners := listeners s @
                  map (\<lambda>c. (Elem c, ''click'',
                         CardClick (document_querySelectorAll (hasClass ''business-type-card'') s) b c))
                    (document_querySelectorAll (hasClass ''business-type-card'') s)\<rparr>)"
  by (simp add: initBusinessTypeSelector_def Let_def deref_def bind_err_def forEach_listen
      split: option.split)

lemma initContactForm_eq:
  "initContactForm s =
     Inr (case getElementById ''contact-form'' s of
            None \<Rightarrow> s
          | Some f \<Rightarrow>
              s\<lparr>listeners := listeners s @
                  [(Elem f, ''submit'',
                    FormSubmit f (querySelector f (hasClass ''btn-submit'') s)
                      (getElementById ''form-success'' s))] @
                  map (\<lambda>i. (Elem i, ''input'', InputClear i))
                    (querySelectorAll f sel_input_textarea s)\<rparr>)"
  by (simp add: initContactForm_def Let_def deref_def bind_err_def forEach_listen
      addEventListener_def querySelectorAll_def split: option.split)

lemma initCalendlyModal_eq:
  "initCalendlyModal s =
     Inr (case (getElementById ''calendly-trigger'' s, getElementById ''calendly-modal'' s) of
            (Some t, Some m) \<Rightarrow>
              setAttribute m ''aria-hidden'' (js ''true'')
                (s\<lparr>isModalOpen := False, focusableElements := [],
                   firstFocusableElement := Null, lastFocusableElement := Null,
                   iframeSrcSet := False,
                   listeners := listeners s @
                     [(Elem t, ''click'', TriggerClick t m (getElementById ''calendly-iframe'' s))] @
                     map (\<lambda>b. (Elem b, ''click'', CloseClick t m))
                       (querySelectorAll m sel_close_modal s) @
                     [(Document, ''keydown'', ModalKeydown t m)]\<rparr>)
          | _ \<Rightarrow> s)"
  by (simp add: initCalendlyModal_def Let_def deref_def bind_err_def forEach_listen
      addEventListener_def split: option.split)

lemma init_total:
  "\<exists>s'. initPreloader s = Inr s'" "\<exists>s'. initStickyNavbar s = Inr s'"
  "\<exists>s'. initMobileNav s = Inr s'" "\<exists>s'. initSmoothNavigation s = Inr s'"
  "\<exists>s'. initBusinessTypeSelector s = Inr s'" "\<exists>s'. initContactForm s = Inr s'"
  "\<exists>s'. initCalendlyModal s = Inr s'"
  by (simp_all add: initPreloader_eq initStickyNavbar_eq initMobileNav_eq
      initSmoothNavigation_eq initBusinessTypeSelector_eq initContactForm_eq initCalendlyModal_eq)

lemma init_chain:
  "\<exists>s1 s2 s3 s4 s5 s6 s7.
     initPreloader s = Inr s1 \<and> initStickyNavbar s1 = Inr s2 \<and> initMobileNav s2 = Inr s3
     \<and> initSmoothNavigation s3 = Inr s4 \<and> initBusinessTypeSelector s4 = Inr s5
     \<and> initContactForm s5 = Inr s6 \<and> initCalendlyModal s6 = Inr s7 \<and> init s = Inr s7"
proof -
  from init_total(1) obtain s1 where 1: "initPreloader s = Inr s1" ..
  from init_total(2) obtain s2 where 2: "initStickyNavbar s1 = Inr s2" ..
  from init_total(3) obtain s3 where 3: "initMobileNav s2 = Inr s3" ..
  from init_total(4) obtain s4 where 4: "initSmoothNavigation s3 = Inr s4" ..
  from init_total(5) obtain s5 where 5: "initBusinessTypeSelector s4 = Inr s5" ..
  from init_total(6) obtain s6 where 6: "initContactForm s5 = Inr s6" ..
  from init_total(7) obtain s7 where 7: "initCalendlyModal s6 = Inr s7" ..
  have "init s = Inr s7"
    by (simp add: init_def bind_err_def 1 2 3 4 5 6 7)
  with 1 2 3 4 5 6 7 show ?thesis by blast
qed

lemma initPreloader_grows:
  "initPreloader s = Inr s' \<Longrightarrow> elems s' = elems s \<and> set (listeners s) \<subseteq> set (listeners s')"
  by (auto simp: initPreloader_eq split: option.splits)

lemma initStickyNavbar_grows:
  "initStickyNavbar s = Inr s' \<Longrightarrow> elems s' = elems s \<and> set (listeners s) \<subseteq> set (listeners s')"
  by (auto simp: initStickyNavbar_eq split: option.splits)

lemma initMobileNav_grows:
  "initMobileNav s = Inr s' \<Longrightarrow> elems s' = elems s \<and> set (listeners s) \<subseteq> set (listeners s')"
  by (auto simp: initMobileNav_eq split: option.splits)

lemma initSmoothNavigation_grows:
  "initSmoothNavigation s = Inr s' \<Longrightarrow> elems s' = elems s \<and> set (listeners s) \<subseteq> set (listeners s')"
  by (auto simp: initSmoothNavigation_eq)

lemma initBusinessTypeSelector_grows:
  "initBusinessTypeSelector s = Inr s' \<Longrightarrow>
     elems s' = elems s \<and> set (listeners s) \<subseteq> set (listeners s')"
  by (auto simp: initBusinessTypeSelector_eq split: option.splits)

lemma initContactForm_grows:
  "initContactForm s = Inr s' \<Longrightarrow> elems s' = elems s \<and> set (listeners s) \<subseteq> set (listeners s')"
  by (auto simp: initContactForm_eq split: option.splits)

lemma initCalendlyModal_grows:
  "initCalendlyModal s = Inr s' \<Longrightarrow>
     set (listeners s) \<subseteq> set (listeners s') \<and> length (elems s') = length (elems s)
     \<and> (\<forall>i<length (elems s).
           classList (elems s' ! i) = classList (elems s ! i)
           \<and> fvalue (elems s' ! i) = fvalue (elems s ! i))"
  by (auto simp: initCalendlyModal_eq setAttribute_def updElem_def nth_list_update
      dest: getElementById_in_range split: option.splits)

lemma initPreloader_registers:
  "initPreloader s = Inr s' \<Longrightarrow> getElementById ''preloader'' s = Some p \<Longrightarrow>
     (Window, ''load'', PreloaderLoad p) \<in> set (listeners s')"
  by (auto simp: initPreloader_eq)

lemma initStickyNavbar_registers:
  "initStickyNavbar s = Inr s' \<Longrightarrow> getElementById ''navbar'' s = Some n \<Longrightarrow>
     (Window, ''scroll'', NavbarScroll n) \<in> set (listeners s')"
  by (auto simp: initStickyNavbar_eq)

lemma initMobileNav_registers:
  "initMobileNav s = Inr s' \<Longrightarrow> getElementById ''nav-toggle'' s = Some t \<Longrightarrow>
   getElementById ''nav-menu'' s = Some m \<Longrightarrow>
     (Elem t, ''click'', NavToggleClick t m) \<in> set (listeners s')
     \<and> (Document, ''click'', NavOutsideClick t m) \<in> set (listeners s')
     \<and> (Document, ''keydown'', NavEscape t m) \<in> set (listeners s')"
  by (auto simp: initMobileNav_eq)

lemma initBusinessTypeSelector_registers:
  "initBusinessTypeSelector s = Inr s' \<Longrightarrow> getElementById ''business-type'' s = Some b \<Longrightarrow>
   c \<in> set (document_querySelectorAll (hasClass ''business-type-card'') s) \<Longrightarrow>
     (Elem c, ''click'', CardClick (document_querySelectorAll (hasClass ''business-type-card'') s) b c)
       \<in> set (listeners s')"
  by (auto simp: initBusinessTypeSelector_eq)

lemma initContactForm_registers:
  "initContactForm s = Inr s' \<Longrightarrow> getElementById ''contact-form'' s = Some f \<Longrightarrow>
     (Elem f, ''submit'',
      FormSubmit f (querySelector f (hasClass ''btn-submit'') s) (getElementById ''form-success'' s))
       \<in> set (listeners s')"
  by (auto simp: initContactForm_eq)

lemma initCalendlyModal_registers:
  "initCalendlyModal s = Inr s' \<Longrightarrow> getElementById ''calendly-trigger'' s = Some t \<Longrightarrow>
   getElementById ''calendly-modal'' s = Some m \<Longrightarrow>
     (Elem t, ''click'', TriggerClick t m (getElementById ''calendly-iframe'' s)) \<in> set (listeners s')
     \<and> (Document, ''keydown'', ModalKeydown t m) \<in> set (listeners s')
     \<and> \<not> iframeSrcSet s' \<and> \<not> isModalOpen s'"
  by (auto simp: initCalendlyModal_eq setAttribute_def updElem_def)

lemma init_facts:
  "\<exists>s1 s2 s3 s4 s5 s6 s7.
     initPreloader s = Inr s1 \<and> initStickyNavbar s1 = Inr s2 \<and> initMobileNav s2 = Inr s3
     \<and> initSmoothNavigation s3 = Inr s4 \<and> initBusinessTypeSelector s4 = Inr s5
     \<and> initContactForm s5 = Inr s6 \<and> initCalendlyModal s6 = Inr s7 \<and> init s = Inr s7
     \<and> after_init s = s7
     \<and> elems s1 = elems s \<and> elems s2 = elems s \<and> elems s3 = elems s \<and> elems s4 = elems s
     \<and> elems s5 = elems s \<and> elems s6 = elems s
     \<and> set (listeners s1) \<subseteq> set (listeners s7) \<and> set (listeners s2) \<subseteq> set (listeners s7)
     \<and> set (listeners s3) \<subseteq> set (listeners s7) \<and> set (listeners s4) \<subseteq> set (listeners s7)
     \<and> set (listeners s5) \<subseteq> set (listeners s7) \<and> set (listeners s6) \<subseteq> set (listeners s7)"
proof -
  from init_chain [of s] obtain s1 s2 s3 s4 s5 s6 s7 where
    c: "initPreloader s = Inr s1" "initStickyNavbar s1 = Inr s2" "initMobileNav s2 = Inr s3"
      "initSmoothNavigation s3 = Inr s4" "initBusinessTypeSelector s4 = Inr s5"
      "initContactForm s5 = Inr s6" "initCalendlyModal s6 = Inr s7" "init s = Inr s7"
    by blast
  note g = initPreloader_grows [OF c(1)] initStickyNavbar_grows [OF c(2)]
    initMobileNav_grows [OF c(3)] initSmoothNavigation_grows [OF c(4)]
    initBusinessTypeSelector_grows [OF c(5)] initContactForm_grows [OF c(6)]
    initCalendlyModal_grows [OF c(7)]
  have e: "elems s1 = elems s" "elems s2 = elems s" "elems s3 = elems s" "elems s4 = elems s"
    "elems s5 = elems s" "elems s6 = elems s"
    using g by simp_all
  have l: "set (listeners s6) \<subseteq> set (listeners s7)" "set (listeners s5) \<subseteq> set (listeners s7)"
    "set (listeners s4) \<subseteq> set (listeners s7)" "set (listeners s3) \<subseteq> set (listeners s7)"
    "set (listeners s2) \<subseteq> set (listeners s7)" "set (listeners s1) \<subseteq> set (listeners s7)"
    using g by (blast intro: subset_trans)+
  have a: "after_init s = s7" by (simp add: after_init_def c(8))
  show ?thesis
    apply (rule exI [of _ s1], rule exI [of _ s2], rule exI [of _ s3], rule exI [of _ s4])
    apply (rule exI [of _ s5], rule exI [of _ s6], rule exI [of _ s7])
    apply (simp add: c e l a)
    done
qed

lemma init_trace:
  "initPreloader s = Inr s' \<Longrightarrow> trace s' = trace s"
  "initStickyNavbar s = Inr s' \<Longrightarrow> trace s' = trace s"
  "initMobileNav s = Inr s' \<Longrightarrow> trace s' = trace s"
  "initSmoothNavigation s = Inr s' \<Longrightarrow> trace s' = trace s"
  "initBusinessTypeSelector s = Inr s' \<Longrightarrow> trace s' = trace s"
  "initContactForm s = Inr s' \<Longrightarrow> trace s' = trace s"
  "initCalendlyModal s = Inr s' \<Longrightarrow> trace s' = trace s"
  by (auto simp: initPreloader_eq initStickyNavbar_eq initMobileNav_eq initSmoothNavigation_eq
      initBusinessTypeSelector_eq initContactForm_eq initCalendlyModal_eq setAttribute_def
      updElem_def split: option.splits)

lemma after_init_trace: "trace (after_init s) = trace s"
proof -
  from init_chain [of s] obtain s1 s2 s3 s4 s5 s6 s7 where
    c: "initPreloader s = Inr s1" "initStickyNavbar s1 = Inr s2" "initMobileNav s2 = Inr s3"
      "initSmoothNavigation s3 = Inr s4" "initBusinessTypeSelector s4 = Inr s5"
      "initContactForm s5 = Inr s6" "initCalendlyModal s6 = Inr s7" "init s = Inr s7"
    by blast
  have "trace s7 = trace s"
    using init_trace(1) [OF c(1)] init_trace(2) [OF c(2)] init_trace(3) [OF c(3)]
      init_trace(4) [OF c(4)] init_trace(5) [OF c(5)] init_trace(6) [OF c(6)]
      init_trace(7) [OF c(7)]
    by simp
  then show ?thesis by (simp add: after_init_def c(8))
qed

lemma after_init_latch:
  assumes "getElementById ''calendly-trigger'' s = Some t"
    and "getElementById ''calendly-modal'' s = Some m"
  shows "\<not> iframeSrcSet (after_init s) \<and> \<not> isModalOpen (after_init s)"
proof -
  from init_facts [of s] obtain s6 s7 where
    c: "initCalendlyModal s6 = Inr s7" and a: "after_init s = s7" and e: "elems s6 = elems s"
    by blast
  from assms have "getElementById ''calendly-trigger'' s6 = Some t"
    "getElementById ''calendly-modal'' s6 = Some m"
    by (simp_all add: getElementById_elems [OF e])
  from initCalendlyModal_registers [OF c this] show ?thesis by (simp add: a)
qed

text \<open>
  C9.  For every document \<open>init\<close> returns without raising.  Where the preloader, the
  navbar, the nav toggle or menu, the business-type field or every card, the contact form,
  or the modal trigger or container is absent, the \<open>init\<close> function of that component
  returns the page as it found it; and each component whose own mount points are present
  has its listeners registered by \<open>init\<close>, whatever else is absent.
\<close>

theorem init_guards:
  "(\<exists>s'. init s = Inr s')
   \<and> ((getElementById ''preloader'' s = None \<longrightarrow> initPreloader s = Inr s)
   \<and> (getElementById ''navbar'' s = None \<longrightarrow> initStickyNavbar s = Inr s)
   \<and> (getElementById ''nav-toggle'' s = None \<or> getElementById ''nav-menu'' s = None \<longrightarrow>
        initMobileNav s = Inr s)
   \<and> (getElementById ''business-type'' s = None
        \<or> document_querySelectorAll (hasClass ''business-type-card'') s = [] \<longrightarrow>
        initBusinessTypeSelector s = Inr s)
   \<and> (getElementById ''contact-form'' s = None \<longrightarrow> initContactForm s = Inr s)
   \<and> (getElementById ''calendly-trigger'' s = None \<or> getElementById ''calendly-modal'' s = None \<longrightarrow>
        initCalendlyModal s = Inr s))
   \<and> ((\<forall>p. getElementById ''preloader'' s = Some p \<longrightarrow>
          enabled s (Window, ''load'', PreloaderLoad p))
   \<and> (\<forall>n. getElementById ''navbar'' s = Some n \<longrightarrow>
          enabled s (Window, ''scroll'', NavbarScroll n))
   \<and> (\<forall>t m. getElementById ''nav-toggle'' s = Some t \<and> getElementById ''nav-menu'' s = Some m \<longrightarrow>
          enabled s (Elem t, ''click'', NavToggleClick t m)
          \<and> enabled s (Document, ''click'', NavOutsideClick t m)
          \<and> enabled s (Document, ''keydown'', NavEscape t m)))
   \<and> (\<forall>b c. getElementById ''business-type'' s = Some b
          \<and> c \<in> set (document_querySelectorAll (hasClass ''business-type-card'') s) \<longrightarrow>
          enabled s (Elem c, ''click'',
            CardClick (document_querySelectorAll (hasClass ''business-type-card'') s) b c))
   \<and> (\<forall>f. getElementById ''contact-form'' s = Some f \<longrightarrow>
          enabled s (Elem f, ''submit'',
            FormSubmit f (querySelector f (hasClass ''btn-submit'') s)
              (getElementById ''form-success'' s)))
   \<and> (\<forall>t m. getElementById ''calendly-trigger'' s = Some t
          \<and> getElementById ''calendly-modal'' s = Some m \<longrightarrow>
          enabled s (Elem t, ''click'', TriggerClick t m (getElementById ''calendly-iframe'' s))
          \<and> enabled s (Document, ''keydown'', ModalKeydown t m)
          \<and> \<not> iframeSrcSet (after_init s) \<and> \<not> isModalOpen (after_init s))"
proof -
  from init_facts [of s] obtain s1 s2 s3 s4 s5 s6 s7 where
    c: "initPreloader s = Inr s1" "initStickyNavbar s1 = Inr s2" "initMobileNav s2 = Inr s3"
      "initSmoothNavigation s3 = Inr s4" "initBusinessTypeSelector s4 = Inr s5"
      "initContactForm s5 = Inr s6" "initCalendlyModal s6 = Inr s7" "init s = Inr s7"
    and a: "after_init s = s7"
    and e: "elems s1 = elems s" "elems s2 = elems s" "elems s3 = elems s" "elems s4 = elems s"
      "elems s5 = elems s" "elems s6 = elems s"
    and l: "set (listeners s1) \<subseteq> set (listeners s7)" "set (listeners s2) \<subseteq> set (listeners s7)"
      "set (listeners s3) \<subseteq> set (listeners s7)" "set (listeners s4) \<subseteq> set (listeners s7)"
      "set (listeners s5) \<subseteq> set (listeners s7)" "set (listeners s6) \<subseteq> set (listeners s7)"
    by blast
  have 0: "\<exists>s'. init s = Inr s'" using c(8) by blast
  have n1: "initPreloader s = Inr s" if "getElementById ''preloader'' s = None"
    using that by (simp add: initPreloader_eq)
  have n2: "initStickyNavbar s = Inr s" if "getElementById ''navbar'' s = None"
    using that by (simp add: initStickyNavbar_eq)
  have n3: "initMobileNav s = Inr s"
    if "getElementById ''nav-toggle'' s = None \<or> getElementById ''nav-menu'' s = None"
    using that by (auto simp: initMobileNav_eq split: option.split)
  have n4: "initBusinessTypeSelector s = Inr s"
    if "getElementById ''business-type'' s = None
        \<or> document_querySelectorAll (hasClass ''business-type-card'') s = []"
    using that by (auto simp: initBusinessTypeSelector_eq split: option.split)
  have n5: "initContactForm s = Inr s" if "getElementById ''contact-form'' s = None"
    using that by (simp add: initContactForm_eq)
  have n6: "initCalendlyModal s = Inr s"
    if "getElementById ''calendly-trigger'' s = None \<or> getElementById ''calendly-modal'' s = None"
    using that by (auto simp: initCalendlyModal_eq split: option.split)
  have p1: "enabled s (Window, ''load'', PreloaderLoad p)"
    if "getElementById ''preloader'' s = Some p" for p
    using initPreloader_registers [OF c(1) that] l(1) by (auto simp: enabled_def a)
  have p2: "enabled s (Window, ''scroll'', NavbarScroll n)"
    if "getElementById ''navbar'' s = Some n" for n
  proof -
    from that have "getElementById ''navbar'' s1 = Some n"
      by (simp add: getElementById_elems [OF e(1)])
    from initStickyNavbar_registers [OF c(2) this] l(2) show ?thesis
      by (auto simp: enabled_def a)
  qed
  have p3: "enabled s (Elem t, ''click'', NavToggleClick t m)
          \<and> enabled s (Document, ''click'', NavOutsideClick t m)
          \<and> enabled s (Document, ''keydown'', NavEscape t m)"
    if "getElementById ''nav-toggle'' s = Some t" "getElementById ''nav-menu'' s = Some m" for t m
  proof -
    from that have "getElementById ''nav-toggle'' s2 = Some t" "getElementById ''nav-menu'' s2 = Some m"
      by (simp_all add: getElementById_elems [OF e(2)])
    from initMobileNav_registers [OF c(3) this] l(3) show ?thesis
      by (auto simp: enabled_def a)
  qed
  have p4: "enabled s (Elem c, ''click'',
            CardClick (document_querySelectorAll (hasClass ''business-type-card'') s) b c)"
    if "getElementById ''business-type'' s = Some b"
      "c \<in> set (document_querySelectorAll (hasClass ''business-type-card'') s)" for b c
  proof -
    have q: "document_querySelectorAll (hasClass ''business-type-card'') s4
        = document_querySelectorAll (hasClass ''business-type-card'') s"
      by (rule dqsa_elems [OF e(4)])
    from that have "getElementById ''business-type'' s4 = Some b"
      "c \<in> set (document_querySelectorAll (hasClass ''business-type-card'') s4)"
      by (simp_all add: getElementById_elems [OF e(4)] q)
    from initBusinessTypeSelector_registers [OF c(5) this] l(5) show ?thesis
      by (auto simp: enabled_def a q)
  qed
  have p5: "enabled s (Elem f, ''submit'',
            FormSubmit f (querySelector f (hasClass ''btn-submit'') s)
              (getElementById ''form-success'' s))"
    if "getElementById ''contact-form'' s = Some f" for f
  proof -
    from that have "getElementById ''contact-form'' s5 = Some f"
      by (simp add: getElementById_elems [OF e(5)])
    from initContactForm_registers [OF c(6) this] l(6) show ?thesis
      by (auto simp: enabled_def a getElementById_elems [OF e(5)] qs_elems [OF e(5)])
  qed
  have p6: "enabled s (Elem t, ''click'', TriggerClick t m (getElementById ''calendly-iframe'' s))
          \<and> enabled s (Document, ''keydown'', ModalKeydown t m)
          \<and> \<not> iframeSrcSet (after_init s) \<and> \<not> isModalOpen (after_init s)"
    if "getElementById ''calendly-trigger'' s = Some t" "getElementById ''calendly-modal'' s = Some m"
    for t m
  proof -
    from that have "getElementById ''calendly-trigger'' s6 = Some t"
      "getElementById ''calendly-modal'' s6 = Some m"
      by (simp_all add: getElementById_elems [OF e(6)])
    from initCalendlyModal_registers [OF c(7) this] show ?thesis
      by (simp add: enabled_def a getElementById_elems [OF e(6)])
  qed
  from n1 n2 n3 n4 n5 n6
  have n: "(getElementById ''preloader'' s = None \<longrightarrow> initPreloader s = Inr s)
   \<and> (getElementById ''navbar'' s = None \<longrightarrow> initStickyNavbar s = Inr s)
   \<and> (getElementById ''nav-toggle'' s = None \<or> getElementById ''nav-menu'' s = None \<longrightarrow>
        initMobileNav s = Inr s)
   \<and> (getElementById ''business-type'' s = None
        \<or> document_querySelectorAll (hasClass ''business-type-card'') s = [] \<longrightarrow>
        initBusinessTypeSelector s = Inr s)
   \<and> (getElementById ''contact-form'' s = None \<longrightarrow> initContactForm s = Inr s)
   \<and> (getElementById ''calendly-trigger'' s = None \<or> getElementById ''calendly-modal'' s = None \<longrightarrow>
        initCalendlyModal s = Inr s)"
    by blast
  from p1 p2 p3
  have p: "(\<forall>p. getElementById ''preloader'' s = Some p \<longrightarrow>
          enabled s (Window, ''load'', PreloaderLoad p))
   \<and> (\<forall>n. getElementById ''navbar'' s = Some n \<longrightarrow>
          enabled s (Window, ''scroll'', NavbarScroll n))
   \<and> (\<forall>t m. getElementById ''nav-toggle'' s = Some t \<and> getElementById ''nav-menu'' s = Some m \<longrightarrow>
          enabled s (Elem t, ''click'', NavToggleClick t m)
          \<and> enabled s (Document, ''click'', NavOutsideClick t m)
          \<and> enabled s (Document, ''keydown'', NavEscape t m))"
    by blast
  from p4 p5 p6
  have r: "(\<forall>b c. getElementById ''business-type'' s = Some b
          \<and> c \<in> set (document_querySelectorAll (hasClass ''business-type-card'') s) \<longrightarrow>
          enabled s (Elem c, ''click'',
            CardClick (document_querySelectorAll (hasClass ''business-type-card'') s) b c))
   \<and> (\<forall>f. getElementById ''contact-form'' s = Some f \<longrightarrow>
          enabled s (Elem f, ''submit'',
            FormSubmit f (querySelector f (hasClass ''btn-submit'') s)
              (getElementById ''form-success'' s)))
   \<and> (\<forall>t m. getElementById ''calendly-trigger'' s = Some t
          \<and> getElementById ''calendly-modal'' s = Some m \<longrightarrow>
          enabled s (Elem t, ''click'', TriggerClick t m (getElementById ''calendly-iframe'' s))
          \<and> enabled s (Document, ''keydown'', ModalKeydown t m)
          \<and> \<not> iframeSrcSet (after_init s) \<and> \<not> isModalOpen (after_init s))"
    by blast
  from 0 n p r show ?thesis by - ((rule conjI, assumption)+, assumption)
qed

text \<open>
  The theorem at the empty document, where \<open>init\<close> changes nothing, and at a page with
  the contact form and the cards but no preloader, navigation or modal.
\<close>

theorem init_guards_witness:
  "init (mk_page []) = Inr (mk_page [])
   \<and> initPreloader page_contact = Inr page_contact
   \<and> initMobileNav page_contact = Inr page_contact
   \<and> initCalendlyModal page_contact = Inr page_contact
   \<and> enabled page_contact (Elem 0, ''submit'', FormSubmit 0 (Some 3) (Some 4))
   \<and> enabled page_contact (Elem 5, ''click'', CardClick [5, 6] 2 5)"
proof -
  have q: "getElementById ''preloader'' page_contact = None"
    "getElementById ''nav-toggle'' page_contact = None"
    "getElementById ''calendly-trigger'' page_contact = None"
    "getElementById ''contact-form'' page_contact = Some 0"
    "getElementById ''form-success'' page_contact = Some 4"
    "getElementById ''business-type'' page_contact = Some 2"
    "querySelector 0 (hasClass ''btn-submit'') page_contact = Some 3"
    "document_querySelectorAll (hasClass ''business-type-card'') page_contact = [5, 6]"
    by (simp_all add: page_contact_def query_defs)
  have z: "getElementById n (mk_page []) = None" for n
    by (simp add: query_defs)
  have dz: "document_querySelectorAll sel (mk_page []) = []" for sel
    by (simp add: query_defs)
  note E = init_guards [of "mk_page []"]
  from E z have e: "initPreloader (mk_page []) = Inr (mk_page [])"
    "initStickyNavbar (mk_page []) = Inr (mk_page [])"
    "initMobileNav (mk_page []) = Inr (mk_page [])"
    "initBusinessTypeSelector (mk_page []) = Inr (mk_page [])"
    "initContactForm (mk_page []) = Inr (mk_page [])"
    "initCalendlyModal (mk_page []) = Inr (mk_page [])"
    by simp_all
  have sm: "initSmoothNavigation (mk_page []) = Inr (mk_page [])"
    by (simp add: initSmoothNavigation_eq document_querySelectorAll_def mk_page_def)
  have 1: "init (mk_page []) = Inr (mk_page [])"
    by (simp add: init_def bind_err_def e sm)
  note G = init_guards [of page_contact]
  from G q(1) have 2: "initPreloader page_contact = Inr page_contact" by blast
  from G q(2) have 3: "initMobileNav page_contact = Inr page_contact" by blast
  from G q(3) have 4: "initCalendlyModal page_contact = Inr page_contact" by blast
  from G q(4) have "enabled page_contact (Elem 0, ''submit'',
      FormSubmit 0 (querySelector 0 (hasClass ''btn-submit'') page_contact)
        (getElementById ''form-success'' page_contact))"
    by blast
  then have 5: "enabled page_contact (Elem 0, ''submit'', FormSubmit 0 (Some 3) (Some 4))"
    by (simp add: q)
  have "5 \<in> set (document_querySelectorAll (hasClass ''business-type-card'') page_contact)"
    by (simp add: q)
  with G q(6) have "enabled page_contact (Elem 5, ''click'',
      CardClick (document_querySelectorAll (hasClass ''business-type-card'') page_contact) 2 5)"
    by blast
  then have 6: "enabled page_contact (Elem 5, ''click'', CardClick [5, 6] 2 5)"
    by (simp add: q)
  from 1 2 3 4 5 6 show ?thesis by simp
qed

section \<open>The modal\<close>

lemma qsa_updElem:
  assumes "\<And>e. ancestors (f e) = ancestors e" and "\<And>e. sel (f e) = sel e"
  shows "querySelectorAll root sel (updElem i f s) = querySelectorAll root sel s"
  by (rule qsa_cong) (auto simp: updElem_nth assms)

lemma qsa_elems: "elems s' = elems s \<Longrightarrow> querySelectorAll root sel s' = querySelectorAll root sel s"
  by (simp add: querySelectorAll_def)

lemma sel_focusable_attr:
  "a \<noteq> ''href'' \<Longrightarrow> a \<noteq> ''tabindex'' \<Longrightarrow>
     sel_focusable (e\<lparr>attrs := (attrs e)(a \<mapsto> v)\<rparr>) = sel_focusable e"
  by (simp add: sel_focusable_def)

lemma sel_focusable_classList [simp]:
  "sel_focusable (e\<lparr>classList := c\<rparr>) = sel_focusable e"
  by (simp add: sel_focusable_def)

lemma focusable_setAttribute:
  "a \<noteq> ''href'' \<Longrightarrow> a \<noteq> ''tabindex'' \<Longrightarrow>
     querySelectorAll root sel_focusable (setAttribute i a v s) = querySelectorAll root sel_focusable s"
  unfolding setAttribute_def by (rule qsa_updElem) (simp_all add: sel_focusable_attr)

lemma focusable_classList_add:
  "querySelectorAll root sel_focusable (classList_add i c s) = querySelectorAll root sel_focusable s"
  unfolding classList_add_def by (rule qsa_updElem) simp_all

lemma focusable_classList_remove:
  "querySelectorAll root sel_focusable (classList_remove i c s) = querySelectorAll root sel_focusable s"
  unfolding classList_remove_def by (rule qsa_updElem) simp_all

lemmas focusable_simps =
  focusable_setAttribute focusable_classList_add focusable_classList_remove

lemma setAttribute_other [simp]:
  "trace (setAttribute i a v s) = trace s"
  "activeElement (setAttribute i a v s) = activeElement s"
  "isModalOpen (setAttribute i a v s) = isModalOpen s"
  "iframeSrcSet (setAttribute i a v s) = iframeSrcSet s"
  "isOpen (setAttribute i a v s) = isOpen s"
  "innerWidth (setAttribute i a v s) = innerWidth s"
  "focusableElements (setAttribute i a v s) = focusableElements s"
  "firstFocusableElement (setAttribute i a v s) = firstFocusableElement s"
  "lastFocusableElement (setAttribute i a v s) = lastFocusableElement s"
  "defaultPrevented (setAttribute i a v s) = defaultPrevented s"
  "length (elems (setAttribute i a v s)) = length (elems s)"
  by (simp_all add: setAttribute_def)

lemma classList_add_other [simp]:
  "trace (classList_add i c s) = trace s"
  "activeElement (classList_add i c s) = activeElement s"
  "isModalOpen (classList_add i c s) = isModalOpen s"
  "iframeSrcSet (classList_add i c s) = iframeSrcSet s"
  "isOpen (classList_add i c s) = isOpen s"
  "innerWidth (classList_add i c s) = innerWidth s"
  "focusableElements (classList_add i c s) = focusableElements s"
  "firstFocusableElement (classList_add i c s) = firstFocusableElement s"
  "lastFocusableElement (classList_add i c s) = lastFocusableElement s"
  "defaultPrevented (classList_add i c s) = defaultPrevented s"
  "length (elems (classList_add i c s)) = length (elems s)"
  by (simp_all add: classList_add_def)

lemma classList_remove_other [simp]:
  "trace (classList_remove i c s) = trace s"
  "activeElement (classList_remove i c s) = activeElement s"
  "isModalOpen (classList_remove i c s) = isModalOpen s"
  "iframeSrcSet (classList_remove i c s) = iframeSrcSet s"
  "isOpen (classList_remove i c s) = isOpen s"
  "innerWidth (classList_remove i c s) = innerWidth s"
  "focusableElements (classList_remove i c s) = focusableElements s"
  "firstFocusableElement (classList_remove i c s) = firstFocusableElement s"
  "lastFocusableElement (classList_remove i c s) = lastFocusableElement s"
  "defaultPrevented (classList_remove i c s) = defaultPrevented s"
  "length (elems (classList_remove i c s)) = length (elems s)"
  by (simp_all add: classList_remove_def)

lemma body_other [simp]:
  "trace (body_add c s) = trace s" "trace (body_remove c s) = trace s"
  "activeElement (body_add c s) = activeElement s" "activeElement (body_remove c s) = activeElement s"
  "isModalOpen (body_add c s) = isModalOpen s" "isModalOpen (body_remove c s) = isModalOpen s"
  "iframeSrcSet (body_add c s) = iframeSrcSet s" "iframeSrcSet (body_remove c s) = iframeSrcSet s"
  "isOpen (body_add c s) = isOpen s" "isOpen (body_remove c s) = isOpen s"
  "innerWidth (body_add c s) = innerWidth s" "innerWidth (body_remove c s) = innerWidth s"
  "focusableElements (body_add c s) = focusableElements s"
  "focusableElements (body_remove c s) = focusableElements s"
  "firstFocusableElement (body_add c s) = firstFocusableElement s"
  "firstFocusableElement (body_remove c s) = firstFocusableElement s"
  "lastFocusableElement (body_add c s) = lastFocusableElement s"
  "lastFocusableElement (body_remove c s) = lastFocusableElement s"
  "elems (body_add c s) = elems s" "elems (body_remove c s) = elems s"
  by (simp_all add: body_add_def body_remove_def)

lemma focus_other [simp]:
  "trace (focus i s) = trace s"
  "activeElement (focus i s) = (if accepts_focus (elems s ! i) then Some i else activeElement s)"
  "isModalOpen (focus i s) = isModalOpen s"
  "iframeSrcSet (focus i s) = iframeSrcSet s"
  "isOpen (focus i s) = isOpen s"
  "innerWidth (focus i s) = innerWidth s"
  "focusableElements (focus i s) = focusableElements s"
  "firstFocusableElement (focus i s) = firstFocusableElement s"
  "lastFocusableElement (focus i s) = lastFocusableElement s"
  "defaultPrevented (focus i s) = defaultPrevented s"
  "elems (focus i s) = elems s"
  by (simp_all add: focus_def)

lemma preventDefault_other [simp]:
  "activeElement (preventDefault s) = activeElement s"
  "isModalOpen (preventDefault s) = isModalOpen s"
  "iframeSrcSet (preventDefault s) = iframeSrcSet s"
  "isOpen (preventDefault s) = isOpen s"
  "innerWidth (preventDefault s) = innerWidth s"
  "focusableElements (preventDefault s) = focusableElements s"
  "firstFocusableElement (preventDefault s) = firstFocusableElement s"
  "lastFocusableElement (preventDefault s) = lastFocusableElement s"
  "defaultPrevented (preventDefault s)"
  by (simp_all add: preventDefault_def)

lemma focus_if_other [simp]:
  "trace (focus_if r s) = trace s"
  "isModalOpen (focus_if r s) = isModalOpen s"
  "iframeSrcSet (focus_if r s) = iframeSrcSet s"
  "focusableElements (focus_if r s) = focusableElements s"
  "firstFocusableElement (focus_if r s) = firstFocusableElement s"
  "lastFocusableElement (focus_if r s) = lastFocusableElement s"
  "defaultPrevented (focus_if r s) = defaultPrevented s"
  "elems (focus_if r s) = elems s"
  by (simp_all add: focus_if_def split: jsref.split)

lemma focus_if_active:
  "activeElement (focus_if r s) =
     (case r of
        El i \<Rightarrow> if accepts_focus (elems s ! i) then Some i else activeElement s
      | _ \<Rightarrow> activeElement s)"
  by (simp add: focus_if_def split: jsref.split)

text \<open>No operation on the modal changes whether an element accepts focus.\<close>

lemma accepts_focus_updElem:
  assumes "\<And>e. accepts_focus (f e) = accepts_focus e"
  shows "accepts_focus (elems (updElem i f s) ! j) = accepts_focus (elems s ! j)"
proof (cases "i = j")
  case False
  then show ?thesis by (simp add: updElem_def)
next
  case True
  show ?thesis
  proof (cases "j < length (elems s)")
    case True
    with \<open>i = j\<close> show ?thesis by (simp add: updElem_def assms)
  next
    case False
    with \<open>i = j\<close> show ?thesis by (simp add: updElem_def list_update_beyond)
  qed
qed

lemma accepts_focus_keeps [simp]:
  "accepts_focus (e\<lparr>attrs := a\<rparr>) = accepts_focus e"
  "accepts_focus (e\<lparr>classList := c\<rparr>) = accepts_focus e"
  by (simp_all add: accepts_focus_def is_control_def)

lemma accepts_focus_ops [simp]:
  "accepts_focus (elems (setAttribute i a v s) ! j) = accepts_focus (elems s ! j)"
  "accepts_focus (elems (classList_add i c s) ! j) = accepts_focus (elems s ! j)"
  "accepts_focus (elems (classList_remove i c s) ! j) = accepts_focus (elems s ! j)"
  unfolding setAttribute_def classList_add_def classList_remove_def
  by (rule accepts_focus_updElem, simp)+

lemma openModal_opened:
  "openModal modal iframe s =
     focus_if (item_first (querySelectorAll modal sel_focusable (opened modal iframe s)))
       ((opened modal iframe s)
          \<lparr>focusableElements := querySelectorAll modal sel_focusable (opened modal iframe s),
            firstFocusableElement := item_first (querySelectorAll modal sel_focusable (opened modal iframe s)),
            lastFocusableElement := item_last (querySelectorAll modal sel_focusable (opened modal iframe s))\<rparr>)"
  by (simp add: openModal_def opened_def updateFocusableElements_def Let_def)

lemma opened_focusable:
  "querySelectorAll modal sel_focusable (opened modal iframe s) = querySelectorAll modal sel_focusable s"
proof -
  have a: "querySelectorAll modal sel_focusable (s\<lparr>isModalOpen := True\<rparr>) = querySelectorAll modal sel_focusable s"
    by (rule qsa_elems) simp
  have b: "querySelectorAll modal sel_focusable (body_add c t) = querySelectorAll modal sel_focusable t" for c t
    by (rule qsa_elems) simp
  have c: "querySelectorAll modal sel_focusable (t\<lparr>iframeSrcSet := True\<rparr>) = querySelectorAll modal sel_focusable t" for t
    by (rule qsa_elems) simp
  have d: "querySelectorAll modal sel_focusable (emit x t) = querySelectorAll modal sel_focusable t" for x t
    by (rule qsa_elems) (simp add: emit_def)
  show ?thesis
    by (simp add: opened_def Let_def a b c d focusable_simps split: option.split)
qed

lemma opened_accepts [simp]:
  "accepts_focus (elems (opened modal iframe s) ! j) = accepts_focus (elems s ! j)"
  by (simp add: opened_def Let_def emit_def split: option.split)

lemma opened_fields:
  "isModalOpen (opened modal iframe s)"
  "activeElement (opened modal iframe s) = activeElement s"
  "iframeSrcSet (opened modal iframe s) = (iframeSrcSet s \<or> iframe \<noteq> None)"
  "trace (opened modal iframe s) =
     trace s @ (if iframe \<noteq> None \<and> \<not> iframeSrcSet s then [SetFrameSrc calendly_url] else [])"
  by (auto simp: opened_def Let_def emit_def split: option.split)

lemma openModal_fields:
  "isModalOpen (openModal modal iframe s)"
  "focusableElements (openModal modal iframe s) = querySelectorAll modal sel_focusable s"
  "firstFocusableElement (openModal modal iframe s) = item_first (querySelectorAll modal sel_focusable s)"
  "lastFocusableElement (openModal modal iframe s) = item_last (querySelectorAll modal sel_focusable s)"
  "activeElement (openModal modal iframe s) =
     (case querySelectorAll modal sel_focusable s of
        [] \<Rightarrow> activeElement s
      | x # _ \<Rightarrow> if accepts_focus (elems s ! x) then Some x else activeElement s)"
  "iframeSrcSet (openModal modal iframe s) = (iframeSrcSet s \<or> iframe \<noteq> None)"
  "trace (openModal modal iframe s) =
     trace s @ (if iframe \<noteq> None \<and> \<not> iframeSrcSet s then [SetFrameSrc calendly_url] else [])"
  by (simp_all add: openModal_opened opened_focusable opened_fields focus_if_active item_first_def
      split: list.split)

lemma closeModal_fields:
  "\<not> isModalOpen (closeModal trigger modal s)"
  "activeElement (closeModal trigger modal s) =
     (if accepts_focus (elems s ! trigger) then Some trigger else activeElement s)"
  "focusableElements (closeModal trigger modal s) = focusableElements s"
  "firstFocusableElement (closeModal trigger modal s) = firstFocusableElement s"
  "lastFocusableElement (closeModal trigger modal s) = lastFocusableElement s"
  "iframeSrcSet (closeModal trigger modal s) = iframeSrcSet s"
  "trace (closeModal trigger modal s) = trace s"
  by (simp_all add: closeModal_def)

lemma key_neq [simp]: "js ''Escape'' \<noteq> js ''Tab''" "js ''Tab'' \<noteq> js ''Escape''"
  by (simp_all add: js_def)

lemma modal_keydown_closed: "\<not> isModalOpen s \<Longrightarrow> modal_keydown trigger modal k sh s = s"
  by (simp add: modal_keydown_def)

lemma modal_keydown_escape:
  "isModalOpen s \<Longrightarrow> modal_keydown trigger modal (js ''Escape'') sh s = closeModal trigger modal s"
  by (simp add: modal_keydown_def)

lemma modal_keydown_tab:
  "isModalOpen s \<Longrightarrow>
     modal_keydown trigger modal (js ''Tab'') sh s =
       (if sh then (if active_is s (firstFocusableElement s)
                    then focus_if (lastFocusableElement s) (preventDefault s) else s)
        else (if active_is s (lastFocusableElement s)
              then focus_if (firstFocusableElement s) (preventDefault s) else s))"
  by (simp add: modal_keydown_def)

lemma modal_keydown_fields:
  "focusableElements (modal_keydown trigger modal k sh s) = focusableElements s"
  "firstFocusableElement (modal_keydown trigger modal k sh s) = firstFocusableElement s"
  "lastFocusableElement (modal_keydown trigger modal k sh s) = lastFocusableElement s"
  "iframeSrcSet (modal_keydown trigger modal k sh s) = iframeSrcSet s"
  "trace (modal_keydown trigger modal k sh s) = trace s"
  by (simp_all add: modal_keydown_def Let_def closeModal_fields)

lemma trigger_click_fields:
  "isModalOpen (trigger_click modal iframe s)"
  "focusableElements (trigger_click modal iframe s) = querySelectorAll modal sel_focusable s"
  "firstFocusableElement (trigger_click modal iframe s) = item_first (querySelectorAll modal sel_focusable s)"
  "lastFocusableElement (trigger_click modal iframe s) = item_last (querySelectorAll modal sel_focusable s)"
  "activeElement (trigger_click modal iframe s) =
     (case querySelectorAll modal sel_focusable s of
        [] \<Rightarrow> activeElement s
      | x # _ \<Rightarrow> if accepts_focus (elems s ! x) then Some x else activeElement s)"
  "iframeSrcSet (trigger_click modal iframe s) = (iframeSrcSet s \<or> iframe \<noteq> None)"
  "trace (trigger_click modal iframe s) =
     trace s @ (if iframe \<noteq> None \<and> \<not> iframeSrcSet s then [SetFrameSrc calendly_url] else [])"
  by (simp_all add: trigger_click_def openModal_fields split: list.split)

lemma trap_ok_step: "trap_ok s \<Longrightarrow> trap_ok (modal_step trigger modal iframe s op)"
  by (cases op) (simp_all add: trap_ok_def trigger_click_fields closeModal_fields modal_keydown_fields)

lemma item_first_hd: "xs \<noteq> [] \<Longrightarrow> item_first xs = El (hd xs)"
  by (cases xs) (simp_all add: item_first_def)

lemma item_last_last: "xs \<noteq> [] \<Longrightarrow> item_last xs = El (last xs)"
  by (cases xs rule: rev_cases) (simp_all add: item_last_def)

lemma modal_step_accepts:
  "accepts_focus (elems (modal_step trigger modal iframe s op) ! j) = accepts_focus (elems s ! j)"
proof (cases op)
  case Open
  then show ?thesis by (simp add: trigger_click_def openModal_opened preventDefault_def opened_def
        Let_def emit_def split: option.split)
next
  case Close
  then show ?thesis by (simp add: closeModal_def)
next
  case (Key k sh)
  then show ?thesis by (simp add: modal_keydown_def Let_def closeModal_def)
qed

lemma modal_run_Nil [simp]: "modal_run trigger modal iframe [] s = s"
  by (simp add: modal_run_def)

lemma modal_run_Cons [simp]:
  "modal_run trigger modal iframe (op # ops) s =
     modal_run trigger modal iframe ops (modal_step trigger modal iframe s op)"
  by (simp add: modal_run_def)

lemma modal_run_snoc [simp]:
  "modal_run trigger modal iframe (ops @ [op]) s =
     modal_step trigger modal iframe (modal_run trigger modal iframe ops s) op"
  by (simp add: modal_run_def)

lemma modal_run_accepts:
  "accepts_focus (elems (modal_run trigger modal iframe ops s) ! j) = accepts_focus (elems s ! j)"
  by (induction ops arbitrary: s) (simp_all add: modal_step_accepts)

text \<open>
  What the trap does in general.  Opening the modal recomputes the focusable elements of
  the modal, in document order, takes the first and the last of them as the bounds of the
  trap and calls \<^verbatim>\<open>focus()\<close> on the first: the focus moves there when that element accepts
  focus, and stays where it was when it does not or when there is none.  While the modal is
  open and the bounds are those of the recorded list, Tab on the last element and Shift+Tab
  on the first prevent the default action of the key and call \<^verbatim>\<open>focus()\<close> on the opposite
  bound, which moves the focus when that bound accepts focus.  Every operation on the modal
  keeps the bounds those of the recorded list.
\<close>

lemma trap_general:
  "(isModalOpen (trigger_click modal iframe s)
    \<and> focusableElements (trigger_click modal iframe s) = querySelectorAll modal sel_focusable s
    \<and> trap_ok (trigger_click modal iframe s)
    \<and> activeElement (trigger_click modal iframe s) =
        (case querySelectorAll modal sel_focusable s of
           [] \<Rightarrow> activeElement s
         | x # _ \<Rightarrow> if accepts_focus (elems s ! x) then Some x else activeElement s))
   \<and> (isModalOpen s \<and> trap_ok s \<and> focusableElements s \<noteq> []
        \<and> activeElement s = Some (last (focusableElements s)) \<longrightarrow>
        activeElement (modal_keydown trigger modal (js ''Tab'') False s)
          = (if accepts_focus (elems s ! hd (focusableElements s))
             then Some (hd (focusableElements s)) else activeElement s)
        \<and> defaultPrevented (modal_keydown trigger modal (js ''Tab'') False s))
   \<and> (isModalOpen s \<and> trap_ok s \<and> focusableElements s \<noteq> []
        \<and> activeElement s = Some (hd (focusableElements s)) \<longrightarrow>
        activeElement (modal_keydown trigger modal (js ''Tab'') True s)
          = (if accepts_focus (elems s ! last (focusableElements s))
             then Some (last (focusableElements s)) else activeElement s)
        \<and> defaultPrevented (modal_keydown trigger modal (js ''Tab'') True s))
   \<and> (trap_ok s \<longrightarrow> trap_ok (modal_step trigger modal iframe s op))"
proof -
  have 1: "trap_ok (trigger_click modal iframe s)"
    by (simp add: trap_ok_def trigger_click_fields)
  have 2: "activeElement (modal_keydown trigger modal (js ''Tab'') False s)
          = (if accepts_focus (elems s ! hd (focusableElements s))
             then Some (hd (focusableElements s)) else activeElement s)
        \<and> defaultPrevented (modal_keydown trigger modal (js ''Tab'') False s)"
    if "isModalOpen s" "trap_ok s" "focusableElements s \<noteq> []"
      "activeElement s = Some (last (focusableElements s))"
    using that
    by (simp add: modal_keydown_tab trap_ok_def item_first_hd item_last_last active_is_def
        focus_if_active)
  have 3: "activeElement (modal_keydown trigger modal (js ''Tab'') True s)
          = (if accepts_focus (elems s ! last (focusableElements s))
             then Some (last (focusableElements s)) else activeElement s)
        \<and> defaultPrevented (modal_keydown trigger modal (js ''Tab'') True s)"
    if "isModalOpen s" "trap_ok s" "focusableElements s \<noteq> []"
      "activeElement s = Some (hd (focusableElements s))"
    using that
    by (simp add: modal_keydown_tab trap_ok_def item_first_hd item_last_last active_is_def
        focus_if_active)
  show ?thesis
    using 1 2 3 trap_ok_step by (simp add: trigger_click_fields)
qed

lemma frame_assignments_append:
  "trace s' = trace s @ xs \<Longrightarrow>
     frame_assignments s' =
       frame_assignments s + length (filter (\<lambda>x. case x of SetFrameSrc _ \<Rightarrow> True | _ \<Rightarrow> False) xs)"
  by (simp add: frame_assignments_def)

lemma modal_step_latch:
  "iframeSrcSet (modal_step trigger modal (Some f) s op) = (iframeSrcSet s \<or> op = Open)"
  "frame_assignments (modal_step trigger modal (Some f) s op) =
     frame_assignments s + (if op = Open \<and> \<not> iframeSrcSet s then 1 else 0)"
  by (cases op; simp add: trigger_click_fields closeModal_fields modal_keydown_fields
      frame_assignments_def)+

lemma modal_run_latch:
  "iframeSrcSet (modal_run trigger modal (Some f) ops s) = (iframeSrcSet s \<or> Open \<in> set ops)
   \<and> frame_assignments (modal_run trigger modal (Some f) ops s) =
       frame_assignments s + (if Open \<in> set ops \<and> \<not> iframeSrcSet s then 1 else 0)"
proof (induction ops arbitrary: s)
  case Nil
  show ?case by simp
next
  case (Cons op ops)
  show ?case
    by (simp add: Cons.IH modal_step_latch)
qed

lemma modal_step_trace:
  "trace (modal_step trigger modal (Some f) s op) =
     trace s @ (if op = Open \<and> \<not> iframeSrcSet s then [SetFrameSrc calendly_url] else [])"
  by (cases op) (simp_all add: trigger_click_fields closeModal_fields modal_keydown_fields)

lemma modal_run_trace:
  "trace (modal_run trigger modal (Some f) ops s) =
     trace s @ (if Open \<in> set ops \<and> \<not> iframeSrcSet s then [SetFrameSrc calendly_url] else [])"
proof (induction ops arbitrary: s)
  case Nil
  show ?case by simp
next
  case (Cons op ops)
  show ?case
    by (simp add: Cons.IH modal_step_trace modal_step_latch)
qed

lemma modal_step_monotone:
  "iframeSrcSet s \<Longrightarrow>
     iframeSrcSet (modal_step trigger modal iframe s op)
     \<and> frame_assignments (modal_step trigger modal iframe s op) = frame_assignments s"
  by (cases op; simp add: trigger_click_fields closeModal_fields modal_keydown_fields
      frame_assignments_def)

subsection \<open>The source of the frame\<close>

lemma src_setAttribute:
  "j < length (elems s) \<Longrightarrow>
     attrs (elems (setAttribute i a v s) ! j) ''src'' =
       (if i = j \<and> a = ''src'' then Some v else attrs (elems s ! j) ''src'')"
  by (simp add: setAttribute_def updElem_nth)

lemma src_classList:
  "j < length (elems s) \<Longrightarrow>
     attrs (elems (classList_add i c s) ! j) ''src'' = attrs (elems s ! j) ''src''"
  "j < length (elems s) \<Longrightarrow>
     attrs (elems (classList_remove i c s) ! j) ''src'' = attrs (elems s ! j) ''src''"
  by (simp_all add: classList_add_def classList_remove_def updElem_nth)

lemma closeModal_src:
  "j < length (elems s) \<Longrightarrow>
     attrs (elems (closeModal trigger modal s) ! j) ''src'' = attrs (elems s ! j) ''src''"
  by (simp add: closeModal_def src_setAttribute src_classList)

lemma closeModal_length [simp]: "length (elems (closeModal trigger modal s)) = length (elems s)"
  by (simp add: closeModal_def)

lemma opened_length [simp]: "length (elems (opened modal iframe s)) = length (elems s)"
  by (simp add: opened_def Let_def emit_def split: option.split)

lemma opened_src:
  "j < length (elems s) \<Longrightarrow>
     attrs (elems (opened modal iframe s) ! j) ''src'' =
       (if iframe = Some j \<and> \<not> iframeSrcSet s then Some calendly_url
        else attrs (elems s ! j) ''src'')"
  by (simp add: opened_def Let_def emit_def src_setAttribute src_classList split: option.split)

lemma trigger_click_elems: "elems (trigger_click modal iframe s) = elems (opened modal iframe s)"
proof -
  have "opened modal iframe (preventDefault s) = preventDefault (opened modal iframe s)"
    by (simp add: opened_def preventDefault_def Let_def emit_def setAttribute_def body_add_def
        classList_add_def updElem_def split: option.split)
  then show ?thesis by (simp add: trigger_click_def openModal_opened)
qed

lemma modal_step_length [simp]:
  "length (elems (modal_step trigger modal iframe s op)) = length (elems s)"
  by (cases op) (simp_all add: trigger_click_elems modal_keydown_def Let_def)

lemma modal_step_src:
  assumes "j < length (elems s)"
  shows "attrs (elems (modal_step trigger modal iframe s op) ! j) ''src'' =
     (if op = Open \<and> iframe = Some j \<and> \<not> iframeSrcSet s then Some calendly_url
      else attrs (elems s ! j) ''src'')"
proof (cases op)
  case Open
  with assms show ?thesis by (simp add: trigger_click_elems opened_src)
next
  case Close
  with assms show ?thesis by (simp add: closeModal_src)
next
  case (Key k sh)
  with assms show ?thesis by (simp add: modal_keydown_def Let_def closeModal_src)
qed

lemma modal_run_length [simp]:
  "length (elems (modal_run trigger modal iframe ops s)) = length (elems s)"
  by (induction ops arbitrary: s) simp_all

lemma modal_run_src:
  "f < length (elems s) \<Longrightarrow>
     attrs (elems (modal_run trigger modal (Some f) ops s) ! f) ''src'' =
       (if Open \<in> set ops \<and> \<not> iframeSrcSet s then Some calendly_url
        else attrs (elems s ! f) ''src'')"
proof (induction ops arbitrary: s)
  case Nil
  show ?case by simp
next
  case (Cons op ops)
  then show ?case
    by (simp add: modal_step_src modal_step_latch del: modal_step.simps)
qed

lemma initCalendlyModal_src:
  "initCalendlyModal s = Inr s' \<Longrightarrow> i < length (elems s) \<Longrightarrow>
     attrs (elems s' ! i) ''src'' = attrs (elems s ! i) ''src''"
  by (auto simp: initCalendlyModal_eq setAttribute_def updElem_def nth_list_update
      dest: getElementById_in_range split: option.splits)

lemma after_init_src:
  assumes "i < length (elems s)"
  shows "attrs (elems (after_init s) ! i) ''src'' = attrs (elems s ! i) ''src''
    \<and> length (elems (after_init s)) = length (elems s)"
proof -
  from init_facts [of s] obtain s6 s7 where
    c: "initCalendlyModal s6 = Inr s7" and a: "after_init s = s7" and e: "elems s6 = elems s"
    by blast
  from assms e have "i < length (elems s6)" by simp
  from initCalendlyModal_src [OF c this] initCalendlyModal_grows [OF c] show ?thesis
    by (simp add: a e)
qed

section \<open>The claims about the modal\<close>

text \<open>
  C6.  With the frame present and the latch \<open>iframeSrcSet\<close> not yet set, any sequence of
  operations on the modal assigns the source of the frame once if the sequence has an open
  in it and never otherwise, and does nothing else that is visible outside the document;
  the \<^verbatim>\<open>src\<close> of the frame is then the Calendly address if the sequence has an open in it,
  and what it was otherwise.  As this holds of every prefix of the sequence, the assignment
  is made by the first open.  The latch is set exactly when that open has happened, and
  once set it stays set and no operation assigns the source again or changes the \<^verbatim>\<open>src\<close>
  of any element.  \<open>init\<close> leaves the latch unset, assigns nothing and leaves every
  \<^verbatim>\<open>src\<close> as it was.
\<close>

theorem frame_source_once:
  "(\<not> iframeSrcSet s \<longrightarrow>
      trace (modal_run trigger modal (Some f) ops s)
        = trace s @ (if Open \<in> set ops then [SetFrameSrc calendly_url] else [])
      \<and> frame_assignments (modal_run trigger modal (Some f) ops s)
        = frame_assignments s + (if Open \<in> set ops then 1 else 0)
      \<and> iframeSrcSet (modal_run trigger modal (Some f) ops s) = (Open \<in> set ops)
      \<and> (f < length (elems s) \<longrightarrow>
           attrs (elems (modal_run trigger modal (Some f) ops s) ! f) ''src''
             = (if Open \<in> set ops then Some calendly_url else attrs (elems s ! f) ''src'')))
   \<and> (iframeSrcSet s \<longrightarrow>
        iframeSrcSet (modal_step trigger modal iframe s op)
        \<and> frame_assignments (modal_step trigger modal iframe s op) = frame_assignments s
        \<and> (\<forall>j<length (elems s).
              attrs (elems (modal_step trigger modal iframe s op) ! j) ''src''
                = attrs (elems s ! j) ''src''))
   \<and> (\<forall>t m. getElementById ''calendly-trigger'' s = Some t
          \<and> getElementById ''calendly-modal'' s = Some m \<longrightarrow>
          \<not> iframeSrcSet (after_init s) \<and> trace (after_init s) = trace s
          \<and> (\<forall>j<length (elems s).
                attrs (elems (after_init s) ! j) ''src'' = attrs (elems s ! j) ''src''))"
proof -
  have a: "\<not> iframeSrcSet s \<longrightarrow>
      trace (modal_run trigger modal (Some f) ops s)
        = trace s @ (if Open \<in> set ops then [SetFrameSrc calendly_url] else [])
      \<and> frame_assignments (modal_run trigger modal (Some f) ops s)
        = frame_assignments s + (if Open \<in> set ops then 1 else 0)
      \<and> iframeSrcSet (modal_run trigger modal (Some f) ops s) = (Open \<in> set ops)
      \<and> (f < length (elems s) \<longrightarrow>
           attrs (elems (modal_run trigger modal (Some f) ops s) ! f) ''src''
             = (if Open \<in> set ops then Some calendly_url else attrs (elems s ! f) ''src''))"
    using modal_run_latch [of trigger modal f ops s] modal_run_trace [of trigger modal f ops s]
      modal_run_src [of f s trigger modal ops]
    by simp
  have b: "iframeSrcSet s \<longrightarrow>
        iframeSrcSet (modal_step trigger modal iframe s op)
        \<and> frame_assignments (modal_step trigger modal iframe s op) = frame_assignments s
        \<and> (\<forall>j<length (elems s).
              attrs (elems (modal_step trigger modal iframe s op) ! j) ''src''
                = attrs (elems s ! j) ''src'')"
    using modal_step_monotone [of s trigger modal iframe op]
    by (simp add: modal_step_src del: modal_step.simps)
  have c: "\<forall>t m. getElementById ''calendly-trigger'' s = Some t
          \<and> getElementById ''calendly-modal'' s = Some m \<longrightarrow>
          \<not> iframeSrcSet (after_init s) \<and> trace (after_init s) = trace s
          \<and> (\<forall>j<length (elems s).
                attrs (elems (after_init s) ! j) ''src'' = attrs (elems s ! j) ''src'')"
    using after_init_latch [of s] after_init_trace [of s] after_init_src [of _ s]
    by simp
  from a b c show ?thesis by (intro conjI)
qed

text \<open>
  C4, amended.  Each close of the modal, by a close control or by the Escape key while the
  modal is open, calls \<^verbatim>\<open>focus()\<close> on the trigger element \<open>calendly-trigger\<close> and leaves the
  modal closed: the focus moves to the trigger when the trigger accepts focus, whatever was
  focused before the modal was opened, and stays where it was when the trigger does not.
  No operation on the modal changes whether the trigger accepts focus.
\<close>

theorem close_focuses_trigger:
  "activeElement (closeModal trigger modal s) =
     (if accepts_focus (elems s ! trigger) then Some trigger else activeElement s)
   \<and> \<not> isModalOpen (closeModal trigger modal s)
   \<and> (accepts_focus (elems s ! trigger) \<longrightarrow>
        activeElement (modal_run trigger modal iframe (ops @ [Close]) s) = Some trigger)
   \<and> \<not> isModalOpen (modal_run trigger modal iframe (ops @ [Close]) s)
   \<and> (isModalOpen s \<longrightarrow>
        activeElement (modal_keydown trigger modal (js ''Escape'') shiftKey s) =
          (if accepts_focus (elems s ! trigger) then Some trigger else activeElement s)
        \<and> \<not> isModalOpen (modal_keydown trigger modal (js ''Escape'') shiftKey s))
   \<and> accepts_focus (elems (modal_run trigger modal iframe ops s) ! trigger)
       = accepts_focus (elems s ! trigger)"
  by (simp add: closeModal_fields modal_keydown_escape modal_run_accepts)

lemma page_modal_focusable: "querySelectorAll (Suc 0) sel_focusable page_modal = [2, 4]"
  by (simp add: page_modal_def query_defs sel_focusable_def)

lemma page_modal_fields:
  "\<not> iframeSrcSet page_modal" "trace page_modal = []" "activeElement page_modal = None"
  by (simp_all add: page_modal_def mk_page_def)

lemma page_modal_accepts:
  "accepts_focus (elems page_modal ! 0)" "accepts_focus (elems page_modal ! 2)"
  "accepts_focus (elems page_modal ! 4)"
  by (simp_all add: page_modal_def query_defs accepts_focus_def is_control_def)

lemma page_modal_anchor_facts:
  "querySelectorAll (Suc 0) sel_focusable page_modal_anchor = [2, 4]"
  "\<not> accepts_focus (elems page_modal_anchor ! 0)"
  "accepts_focus (elems page_modal_anchor ! 2)"
  by (simp_all add: page_modal_anchor_def query_defs sel_focusable_def accepts_focus_def
      is_control_def)

text \<open>
  The theorem at an open followed by a close, and by the Escape key; and at a page whose
  trigger is an anchor without an address, where the close leaves the focus on the close
  button.
\<close>

theorem close_focuses_trigger_witness:
  "accepts_focus (elems page_modal ! 0)
   \<and> activeElement (modal_run 0 1 (Some 3) ([Open] @ [Close]) page_modal) = Some 0
   \<and> isModalOpen (trigger_click 1 (Some 3) page_modal)
   \<and> activeElement (modal_keydown 0 1 (js ''Escape'') False (trigger_click 1 (Some 3) page_modal))
       = Some 0
   \<and> \<not> accepts_focus (elems page_modal_anchor ! 0)
   \<and> activeElement (trigger_click 1 (Some 3) page_modal_anchor) = Some 2
   \<and> activeElement (closeModal 0 1 (trigger_click 1 (Some 3) page_modal_anchor)) = Some 2"
proof -
  let ?s = "trigger_click 1 (Some 3) page_modal"
  let ?a = "trigger_click 1 (Some 3) page_modal_anchor"
  note T = close_focuses_trigger [of 0 1 page_modal "Some 3" "[Open]" False]
  from T page_modal_accepts(1)
  have 1: "activeElement (modal_run 0 1 (Some 3) ([Open] @ [Close]) page_modal) = Some 0"
    by blast
  have o: "isModalOpen ?s" by (simp add: trigger_click_fields)
  have f: "accepts_focus (elems ?s ! 0)"
    using page_modal_accepts(1) by (simp add: trigger_click_elems)
  note U = close_focuses_trigger [of 0 1 ?s "Some 3" "[]" False]
  from U o have "activeElement (modal_keydown 0 1 (js ''Escape'') False ?s) =
      (if accepts_focus (elems ?s ! 0) then Some 0 else activeElement ?s)"
    by blast
  with f have 2: "activeElement (modal_keydown 0 1 (js ''Escape'') False ?s) = Some 0" by simp
  have 3: "activeElement ?a = Some 2"
    by (simp add: trigger_click_fields page_modal_anchor_facts)
  have n: "\<not> accepts_focus (elems ?a ! 0)"
    using page_modal_anchor_facts(2) by (simp add: trigger_click_elems)
  note V = close_focuses_trigger [of 0 1 ?a "Some 3" "[]" False]
  from V have "activeElement (closeModal 0 1 ?a) =
      (if accepts_focus (elems ?a ! 0) then Some 0 else activeElement ?a)"
    by blast
  with n 3 have 4: "activeElement (closeModal 0 1 ?a) = Some 2" by simp
  from page_modal_accepts(1) 1 o 2 page_modal_anchor_facts(2) 3 4 show ?thesis
    by (intro conjI)
qed

text \<open>
  C4 as stated fails.  With the focus on a link outside the modal when the modal is
  opened, the close focuses the trigger, not that link; and when the modal is opened a
  second time while open, the focus is on the close button before that open and on the
  trigger after the close.
\<close>

theorem close_focus_counterexample:
  "activeElement (page_modal\<lparr>activeElement := Some 5\<rparr>) = Some 5
   \<and> activeElement (modal_run 0 1 (Some 3) [Open, Close] (page_modal\<lparr>activeElement := Some 5\<rparr>))
       = Some 0
   \<and> activeElement (modal_run 0 1 (Some 3) [Open] page_modal) = Some 2
   \<and> activeElement (modal_run 0 1 (Some 3) [Open, Open, Close] page_modal) = Some 0"
proof -
  have a: "accepts_focus (elems s ! 0)" if "elems s = elems page_modal" for s
    using page_modal_accepts(1) that by simp
  have 1: "activeElement (modal_run 0 1 (Some 3) [Open] page_modal) = Some 2"
    by (simp add: trigger_click_fields page_modal_focusable page_modal_accepts)
  have 2: "activeElement (modal_run 0 1 (Some 3) [Open, Close] (page_modal\<lparr>activeElement := Some 5\<rparr>))
       = Some 0"
    using a [of "page_modal\<lparr>activeElement := Some 5\<rparr>"]
    by (simp add: closeModal_fields trigger_click_elems)
  have 3: "activeElement (modal_run 0 1 (Some 3) [Open, Open, Close] page_modal) = Some 0"
    using page_modal_accepts(1)
    by (simp add: closeModal_fields trigger_click_elems)
  from 1 2 3 show ?thesis by simp
qed

text \<open>
  C5.  The claim fails on a modal whose first focusable match cannot take focus.  The
  selector of \<open>updateFocusableElements\<close> matches every \<^verbatim>\<open>button\<close> and \<^verbatim>\<open>input\<close>, also a
  disabled button or a hidden input, although it leaves out the elements with the
  \<^verbatim>\<open>tabindex\<close> \<open>-1\<close>.  In the modal below the close button is disabled and is followed by a
  link; the focus is on the trigger when the modal is opened.  Opening records the button
  and the link, takes the button as the first bound and calls \<^verbatim>\<open>focus()\<close> on it, which
  does nothing: the focus stays on the trigger, outside the modal.  With the focus on the
  link, the last bound, Tab is cancelled and \<^verbatim>\<open>focus()\<close> on the button does nothing again:
  the focus stays on the link instead of moving to the first element.
\<close>

theorem focus_trap_disabled_first:
  "focusableElements (trigger_click 1 (Some 3) (page_modal_disabled\<lparr>activeElement := Some 0\<rparr>))
     = [2, 4]
   \<and> firstFocusableElement (trigger_click 1 (Some 3) (page_modal_disabled\<lparr>activeElement := Some 0\<rparr>))
     = El 2
   \<and> lastFocusableElement (trigger_click 1 (Some 3) (page_modal_disabled\<lparr>activeElement := Some 0\<rparr>))
     = El 4
   \<and> activeElement (trigger_click 1 (Some 3) (page_modal_disabled\<lparr>activeElement := Some 0\<rparr>))
     = Some 0
   \<and> \<not> contains page_modal_disabled 1 0
   \<and> activeElement (modal_keydown 0 1 (js ''Tab'') False
        ((trigger_click 1 (Some 3) (page_modal_disabled\<lparr>activeElement := Some 0\<rparr>))
           \<lparr>activeElement := Some 4\<rparr>)) = Some 4
   \<and> defaultPrevented (modal_keydown 0 1 (js ''Tab'') False
        ((trigger_click 1 (Some 3) (page_modal_disabled\<lparr>activeElement := Some 0\<rparr>))
           \<lparr>activeElement := Some 4\<rparr>))"
proof -
  let ?p = "page_modal_disabled\<lparr>activeElement := Some 0\<rparr>"
  let ?s = "trigger_click 1 (Some 3) ?p"
  let ?t = "?s\<lparr>activeElement := Some 4\<rparr>"
  have q: "querySelectorAll (Suc 0) sel_focusable ?p = [2, 4]"
    by (simp add: page_modal_disabled_def query_defs sel_focusable_def)
  have n: "\<not> accepts_focus (elems ?p ! 2)"
    by (simp add: page_modal_disabled_def query_defs accepts_focus_def is_control_def)
  have c: "\<not> contains page_modal_disabled 1 0"
    by (simp add: page_modal_disabled_def query_defs contains_def)
  have 1: "focusableElements ?s = [2, 4]" "firstFocusableElement ?s = El 2"
    "lastFocusableElement ?s = El 4" "isModalOpen ?s"
    by (simp_all add: trigger_click_fields q item_first_def item_last_def)
  have 2: "activeElement ?s = Some 0"
    using n by (simp add: trigger_click_fields q)
  have e: "elems ?t = elems ?s" by simp
  have n': "\<not> accepts_focus (elems ?t ! 2)"
    using n by (simp add: trigger_click_elems)
  have 3: "activeElement (modal_keydown 0 1 (js ''Tab'') False ?t) = Some 4
      \<and> defaultPrevented (modal_keydown 0 1 (js ''Tab'') False ?t)"
    using 1 n' by (simp add: modal_keydown_tab active_is_def focus_if_active)
  from 1 2 c 3 show ?thesis by simp
qed

text \<open>
  On the page whose controls all accept focus: opening focuses the close button,
  Shift+Tab there focuses the link, Tab on the link focuses the button.
\<close>

lemma trap_page_modal:
  "focusableElements (trigger_click 1 (Some 3) page_modal) = [2, 4]
   \<and> activeElement (trigger_click 1 (Some 3) page_modal) = Some 2
   \<and> activeElement (modal_keydown 0 1 (js ''Tab'') True (trigger_click 1 (Some 3) page_modal))
       = Some 4
   \<and> activeElement (modal_keydown 0 1 (js ''Tab'') False
        ((trigger_click 1 (Some 3) page_modal)\<lparr>activeElement := Some 4\<rparr>)) = Some 2"
proof -
  let ?s = "trigger_click 1 (Some 3) page_modal"
  let ?t = "?s\<lparr>activeElement := Some 4\<rparr>"
  note A = trap_general [of 1 "Some 3" page_modal 0 "Key [] False"]
  from A have fe: "focusableElements ?s = [2, 4]" and ac: "activeElement ?s = Some 2"
    and op: "isModalOpen ?s" and tr: "trap_ok ?s"
    by (simp_all add: page_modal_focusable page_modal_accepts)
  have f: "accepts_focus (elems ?s ! 2)" "accepts_focus (elems ?s ! 4)"
    using page_modal_accepts by (simp_all add: trigger_click_elems)
  note B = trap_general [of 1 "Some 3" ?s 0 "Key [] False"]
  from B op tr fe ac f
  have b: "activeElement (modal_keydown 0 1 (js ''Tab'') True ?s) = Some 4" by simp
  have t: "isModalOpen ?t" "trap_ok ?t" "focusableElements ?t = [2, 4]" "activeElement ?t = Some 4"
    "accepts_focus (elems ?t ! 2)"
    using op tr fe f by (simp_all add: trap_ok_def)
  note C = trap_general [of 1 "Some 3" ?t 0 "Key [] False"]
  from C t have c: "activeElement (modal_keydown 0 1 (js ''Tab'') False ?t) = Some 2" by simp
  from fe ac b c show ?thesis by simp
qed

text \<open>
  The theorem C6 at the page \<open>init\<close> leaves, for two cycles of open and close and for a
  close alone.
\<close>

theorem frame_source_once_witness:
  "frame_assignments (modal_run 0 1 (Some 3) [Open, Close, Open, Close] (after_init page_modal)) = 1
   \<and> trace (modal_run 0 1 (Some 3) [Open, Close, Open, Close] (after_init page_modal))
       = [SetFrameSrc calendly_url]
   \<and> iframeSrcSet (modal_run 0 1 (Some 3) [Open, Close, Open, Close] (after_init page_modal))
   \<and> attrs (elems (modal_run 0 1 (Some 3) [Open, Close, Open, Close] (after_init page_modal)) ! 3)
       ''src'' = Some calendly_url
   \<and> frame_assignments (modal_run 0 1 (Some 3) [Close] (after_init page_modal)) = 0
   \<and> attrs (elems (modal_run 0 1 (Some 3) [Close] (after_init page_modal)) ! 3) ''src'' = None"
proof -
  let ?i = "after_init page_modal"
  have q: "getElementById ''calendly-trigger'' page_modal = Some 0"
    "getElementById ''calendly-modal'' page_modal = Some 1"
    by (simp_all add: page_modal_def query_defs)
  have len: "length (elems page_modal) = 6" and src: "attrs (elems page_modal ! 3) ''src'' = None"
    by (simp_all add: page_modal_def query_defs)
  note I = frame_source_once [of page_modal 0 1 3 "[]" "Some 3" Open]
  from I q page_modal_fields
  have l: "\<not> iframeSrcSet ?i" and t: "trace ?i = []"
    by simp_all
  from I q have "\<forall>j<length (elems page_modal).
      attrs (elems ?i ! j) ''src'' = attrs (elems page_modal ! j) ''src''"
    by blast
  with len src have s: "attrs (elems ?i ! 3) ''src'' = None" by simp
  have n: "3 < length (elems ?i)"
    using after_init_src [of 3 page_modal] len by simp
  from t have z: "frame_assignments ?i = 0"
    by (simp add: frame_assignments_def)
  note A = frame_source_once [of ?i 0 1 3 "[Open, Close, Open, Close]" "Some 3" Open]
  note B = frame_source_once [of ?i 0 1 3 "[Close]" "Some 3" Open]
  from A l have a: "trace (modal_run 0 1 (Some 3) [Open, Close, Open, Close] ?i)
        = trace ?i @ (if Open \<in> set [Open, Close, Open, Close] then [SetFrameSrc calendly_url] else [])
      \<and> frame_assignments (modal_run 0 1 (Some 3) [Open, Close, Open, Close] ?i)
        = frame_assignments ?i + (if Open \<in> set [Open, Close, Open, Close] then 1 else 0)
      \<and> iframeSrcSet (modal_run 0 1 (Some 3) [Open, Close, Open, Close] ?i)
        = (Open \<in> set [Open, Close, Open, Close])
      \<and> (3 < length (elems ?i) \<longrightarrow>
           attrs (elems (modal_run 0 1 (Some 3) [Open, Close, Open, Close] ?i) ! 3) ''src''
             = (if Open \<in> set [Open, Close, Open, Close] then Some calendly_url
                else attrs (elems ?i ! 3) ''src''))"
    by blast
  from B l have b: "frame_assignments (modal_run 0 1 (Some 3) [Close] ?i)
        = frame_assignments ?i + (if Open \<in> set [Close] then 1 else 0)
      \<and> (3 < length (elems ?i) \<longrightarrow>
           attrs (elems (modal_run 0 1 (Some 3) [Close] ?i) ! 3) ''src''
             = (if Open \<in> set [Close] then Some calendly_url else attrs (elems ?i ! 3) ''src''))"
    by blast
  from a t z n have 1:
    "frame_assignments (modal_run 0 1 (Some 3) [Open, Close, Open, Close] ?i) = 1"
    "trace (modal_run 0 1 (Some 3) [Open, Close, Open, Close] ?i) = [SetFrameSrc calendly_url]"
    "iframeSrcSet (modal_run 0 1 (Some 3) [Open, Close, Open, Close] ?i)"
    "attrs (elems (modal_run 0 1 (Some 3) [Open, Close, Open, Close] ?i) ! 3) ''src''
       = Some calendly_url"
    by (simp_all del: modal_run_Cons)
  from b z n s have 2:
    "frame_assignments (modal_run 0 1 (Some 3) [Close] ?i) = 0"
    "attrs (elems (modal_run 0 1 (Some 3) [Close] ?i) ! 3) ''src'' = None"
    by (simp_all del: modal_run_Cons)
  from 1 2 show ?thesis by (intro conjI)
qed

section \<open>Mobile navigation: a click on a link of the menu\<close>

lemma closeMenu_fields:
  "\<not> isOpen (closeMenu navToggle navMenu s)"
  "innerWidth (closeMenu navToggle navMenu s) = innerWidth s"
  "activeElement (closeMenu navToggle navMenu s) =
     (if accepts_focus (elems s ! navToggle) then Some navToggle else activeElement s)"
  by (simp_all add: closeMenu_def)

lemma navLink_click_fields:
  "isOpen (navLink_click navToggle navMenu s) = (isOpen s \<and> \<not> innerWidth s \<le> 767)"
  "innerWidth (navLink_click navToggle navMenu s) = innerWidth s"
  by (simp_all add: navLink_click_def closeMenu_fields)

lemma nav_click_at_other:
  "x \<noteq> navToggle \<Longrightarrow>
     nav_click_at navToggle navMenu navLinks x s =
       (if x \<in> set navLinks then navLink_click navToggle navMenu s else s)"
  by (simp add: nav_click_at_def)

lemma fold_nav_wide:
  "navToggle \<notin> set xs \<Longrightarrow> \<not> innerWidth s \<le> 767 \<Longrightarrow>
     fold (nav_click_at navToggle navMenu navLinks) xs s = s"
  by (induction xs) (auto simp: nav_click_at_other navLink_click_def)

lemma fold_nav_narrow:
  "navToggle \<notin> set xs \<Longrightarrow> innerWidth s \<le> 767 \<Longrightarrow>
     isOpen (fold (nav_click_at navToggle navMenu navLinks) xs s)
       = (isOpen s \<and> set xs \<inter> set navLinks = {})"
proof (induction xs arbitrary: s)
  case Nil
  show ?case by simp
next
  case (Cons x xs)
  then have x: "x \<noteq> navToggle" and xs: "navToggle \<notin> set xs" by auto
  let ?s = "nav_click_at navToggle navMenu navLinks x s"
  from Cons.prems x have w: "innerWidth ?s \<le> 767"
    by (simp add: nav_click_at_other navLink_click_fields)
  from Cons.prems x have o: "isOpen ?s = (isOpen s \<and> x \<notin> set navLinks)"
    by (simp add: nav_click_at_other navLink_click_fields)
  show ?case using Cons.IH [OF xs w] o by auto
qed

lemma nav_outside_click_inside:
  "contains s navMenu tgt \<Longrightarrow> nav_outside_click navToggle navMenu tgt s = s"
  by (simp add: nav_outside_click_def)

lemma nav_outside_click_closed:
  "\<not> isOpen s \<Longrightarrow> nav_outside_click navToggle navMenu tgt s = s"
  by (simp add: nav_outside_click_def)

text \<open>
  C7, amended.  While the menu is open, a click on a navigation link inside the panel
  (and outside the toggle) leaves the menu closed iff \<open>window.innerWidth\<close> is at most 767:
  the link's own listener closes the menu at widths up to and including 767, and the
  document's listener does not close it, the link being inside the panel.
\<close>

theorem nav_link_click_closes:
  assumes "isOpen s" and "link \<in> set navLinks" and "contains s navMenu link"
    and "\<not> contains s navToggle link"
  shows "isOpen (nav_click navToggle navMenu navLinks link s) = (\<not> innerWidth s \<le> 767)
    \<and> isOpen (navLink_click navToggle navMenu s) = (\<not> innerWidth s \<le> 767)"
proof -
  let ?path = "link # ancestors (elems s ! link)"
  from assms(4) have t: "navToggle \<notin> set ?path" by (auto simp: contains_def)
  show ?thesis
  proof (cases "innerWidth s \<le> 767")
    case True
    from fold_nav_narrow [OF t True, of navMenu navLinks] assms(2)
    have "\<not> isOpen (fold (nav_click_at navToggle navMenu navLinks) ?path s)" by auto
    then show ?thesis using True assms(1)
      by (simp add: nav_click_def nav_outside_click_closed navLink_click_fields)
  next
    case False
    from fold_nav_wide [OF t False, of navMenu navLinks]
    show ?thesis using False assms(1,3)
      by (simp add: nav_click_def nav_outside_click_inside navLink_click_fields)
  qed
qed

lemma page_nav_open_facts:
  "isOpen (page_nav_open w)" "innerWidth (page_nav_open w) = w"
  "contains (page_nav_open w) (Suc 0) 2" "\<not> contains (page_nav_open w) 0 2"
  by (simp_all add: page_nav_open_def page_nav_def mk_page_def mk_el_def contains_def)

text \<open>The theorem at the widths 767, 375 and 768.\<close>

theorem nav_link_click_closes_witness:
  "\<not> isOpen (nav_click 0 1 [2] 2 (page_nav_open 767))
   \<and> \<not> isOpen (nav_click 0 1 [2] 2 (page_nav_open 375))
   \<and> isOpen (nav_click 0 1 [2] 2 (page_nav_open 768))"
  using nav_link_click_closes [of "page_nav_open 767" 2 "[2]" 1 0]
    nav_link_click_closes [of "page_nav_open 375" 2 "[2]" 1 0]
    nav_link_click_closes [of "page_nav_open 768" 2 "[2]" 1 0]
  by (simp add: page_nav_open_facts)

text \<open>
  C7 as stated fails at the width 767, which is not below 767: the click closes the menu.
\<close>

theorem nav_threshold_counterexample:
  "isOpen (page_nav_open 767) \<and> innerWidth (page_nav_open 767) = 767
   \<and> \<not> (innerWidth (page_nav_open 767) < 767)
   \<and> \<not> isOpen (navLink_click 0 1 (page_nav_open 767))
   \<and> \<not> isOpen (nav_click 0 1 [2] 2 (page_nav_open 767))"
  by (simp add: page_nav_open_def page_nav_def mk_page_def mk_el_def nav_click_def
      nav_click_at_def navLink_click_def closeMenu_def nav_outside_click_def)

section \<open>Business type selector\<close>

lemma card_click_eq:
  assumes "distinct cards"
  shows "card_click cards inp c s =
     set_value inp (selected_type (getAttribute (classList_add c ''active''
         (s\<lparr>elems := mapAt cards deactivate (elems s)\<rparr>)) c ''data-type''))
       (classList_add c ''active'' (s\<lparr>elems := mapAt cards deactivate (elems s)\<rparr>))"
proof -
  have "(\<lambda>c. classList_remove c ''active'') = (\<lambda>i. updElem i deactivate)"
    by (rule ext, rule ext) (simp add: classList_remove_def deactivate_def updElem_def)
  then have "forEach cards (\<lambda>c. classList_remove c ''active'') s
      = s\<lparr>elems := mapAt cards deactivate (elems s)\<rparr>"
    using assms by (simp add: forEach_updElem)
  then show ?thesis
    by (simp add: card_click_def Let_def selected_type_def)
qed

lemma card_click_length [simp]:
  "distinct cards \<Longrightarrow> length (elems (card_click cards inp c s)) = length (elems s)"
  by (simp add: card_click_eq set_value_def classList_add_def)











end
